theory Spec2Isabelle
  imports Complex_Main "HOL-Library.Sublist"
begin

section \<open>Errors\<close>

text \<open>
  What the JavaScript throws or rejects with. \<open>UnknownOperationType t\<close> is
  \<open>new Error('Unknown operation type: ' + t)\<close>; \<open>TypeError\<close> is what reading a property
  of \<open>undefined\<close>, or calling a property that is not a function, throws;
  \<open>ReferenceError\<close> is what evaluating an undeclared identifier throws;
  \<open>DOMException n\<close> is an IndexedDB exception with name \<open>n\<close>; \<open>NetworkFailure\<close> is a
  rejected \<open>fetch\<close>.
\<close>

datatype error =
    UnknownOperationType string
  | TypeError
  | ReferenceError
  | DOMException string
  | NetworkFailure

section \<open>Conflict resolver (technical-research.md, class ConflictResolver)\<close>

text \<open>
  A task is a JavaScript object. The resolver reads \<open>modifiedAt\<close>, \<open>status\<close> and
  \<open>priority\<close>; every other property travels with the object spread \<open>...remoteTask\<close>,
  which the extensible record keeps in its \<open>more\<close> part. Timestamps are the integer
  milliseconds of \<open>Date.now()\<close>.
\<close>

record task =
  task_id :: string
  title :: string
  status :: string
  priority :: string
  modifiedAt :: int

definition resolveStatusConflict :: "string \<Rightarrow> string \<Rightarrow> string" where
  "resolveStatusConflict localStatus remoteStatus =
     (if localStatus = ''completed'' \<or> remoteStatus = ''completed'' then ''completed''
      else remoteStatus)"

text \<open>
  The class declares \<open>resolveTaskConflict\<close> and \<open>resolveStatusConflict\<close> and no
  \<open>resolvePriorityConflict\<close>: \<open>this.resolvePriorityConflict\<close> is \<open>undefined\<close> and
  calling it throws a \<open>TypeError\<close>.
\<close>

definition resolvePriorityConflict :: "string \<Rightarrow> string \<Rightarrow> error + string" where
  "resolvePriorityConflict localPriority remotePriority = Inl TypeError"

text \<open>
  The object literal of the merge evaluates its initialisers in order: the spread, the
  status, then the priority, whose call ends the evaluation when it throws.
\<close>

definition resolveTaskConflict :: "'a task_scheme \<Rightarrow> 'a task_scheme \<Rightarrow> error + 'a task_scheme" where
  "resolveTaskConflict localTask remoteTask =
     (if modifiedAt localTask > modifiedAt remoteTask then Inr localTask
      else
        (let merged_status = resolveStatusConflict (status localTask) (status remoteTask) in
         case resolvePriorityConflict (priority localTask) (priority remoteTask) of
           Inl e \<Rightarrow> Inl e
         | Inr merged_priority \<Rightarrow>
             Inr (remoteTask\<lparr> status := merged_status, priority := merged_priority \<rparr>)))"

section \<open>Service worker (sw.js): values and environment\<close>

text \<open>
  A response: its status, the field names listed in its \<open>Vary\<close> header (none when the
  header is absent) and its body. \<open>new Response(body, { status })\<close> has no \<open>Vary\<close>.
\<close>

record response =
  resp_status :: nat
  resp_vary :: "string list"
  resp_body :: string

definition ok :: "response \<Rightarrow> bool" where
  "ok r = (200 \<le> resp_status r \<and> resp_status r \<le> 299)"

record parsed_url =
  origin :: string
  pathname :: string

text \<open>
  \<open>http_method\<close> is \<open>request.method\<close>; \<open>url\<close> holds what \<open>new URL(request.url)\<close> yields.
\<close>

record request =
  http_method :: string
  url :: parsed_url

record operation =
  op_type :: string
  op_data :: string

text \<open>
  A queued operation: the caller's operation with the \<open>id\<close> and \<open>timestamp\<close> that
  \<open>storeOperationForSync\<close> adds. \<open>id\<close> is the key path of the \<open>syncQueue\<close> store; it is
  \<open>Date.now() + Math.random()\<close>, a double, here the rational it denotes.
\<close>

record sync_operation = operation +
  op_id :: rat
  timestamp :: int

datatype log_arg = Data string | Operation sync_operation | Error error

datatype log_entry =
    console_log string "log_arg list"
  | console_error string "log_arg list"

datatype message = SYNC_COMPLETE nat

text \<open>
  The database \<open>TaskManagerDB\<close>. \<open>version = 0\<close> means it has not been created.
  \<open>syncQueue\<close> lists the records of the object store of that name in the order they were
  added; it is read only through a transaction, which needs the store's name in
  \<open>objectStoreNames\<close>.
\<close>

record idb =
  version :: nat
  objectStoreNames :: "string list"
  syncQueue :: "sync_operation list"

text \<open>
  The worker's surroundings. \<open>network\<close> says how a \<open>fetch\<close> of a request settles and
  \<open>fetched\<close> records the calls; \<open>caches\<close> maps a cache name to its entries, keyed by URL;
  \<open>clients\<close> is what \<open>self.clients.matchAll()\<close> resolves with and \<open>posted\<close> the messages
  sent by \<open>postMessage\<close>. Functions take the world and return their outcome (\<open>Inl\<close> a
  thrown error or rejection) with the world in which the promises they started have settled.
\<close>

record world =
  location_origin :: string
  network :: "request \<Rightarrow> error + response"
  fetched :: "request list"
  caches :: "string \<Rightarrow> parsed_url \<rightharpoonup> response"
  database :: idb
  clients :: "string list"
  posted :: "(string \<times> message) list"
  console :: "log_entry list"

definition CACHE_NAME :: string where
  "CACHE_NAME = ''task-manager-v1''"

definition log :: "log_entry \<Rightarrow> world \<Rightarrow> world" where
  "log entry w = w\<lparr> console := console w @ [entry] \<rparr>"

section \<open>Platform primitives the worker calls\<close>

text \<open>\<open>String.prototype.includes\<close>: the argument occurs as a contiguous substring.\<close>

fun includes_str :: "string \<Rightarrow> string \<Rightarrow> bool" where
  "includes_str [] sub = (sub = [])"
| "includes_str (c # cs) sub = (prefix sub (c # cs) \<or> includes_str cs sub)"

definition fetch :: "request \<Rightarrow> world \<Rightarrow> (error + response) \<times> world" where
  "fetch r w = (network w r, w\<lparr> fetched := fetched w @ [r] \<rparr>)"

text \<open>
  The Cache API on the cache \<open>caches.open(CACHE_NAME)\<close>: entries are keyed by URL and only
  \<open>GET\<close> requests match. \<open>put\<close> rejects with a \<open>TypeError\<close>, and stores nothing, when the
  request is not a \<open>GET\<close> of an \<open>http\<close> or \<open>https\<close> URL, when the response has status
  206, or when its \<open>Vary\<close> header lists \<open>*\<close>. The worker does not await \<open>put\<close>, so
  such a rejection changes nothing.
\<close>

definition cache_match :: "request \<Rightarrow> world \<Rightarrow> response option" where
  "cache_match r w = (if http_method r = ''GET'' then caches w CACHE_NAME (url r) else None)"

definition http_scheme :: "parsed_url \<Rightarrow> bool" where
  "http_scheme u = (prefix ''http://'' (origin u) \<or> prefix ''https://'' (origin u))"

definition storable :: "response \<Rightarrow> bool" where
  "storable resp = (resp_status resp \<noteq> 206 \<and> ''*'' \<notin> set (resp_vary resp))"

definition cache_put :: "request \<Rightarrow> response \<Rightarrow> world \<Rightarrow> world" where
  "cache_put r resp w =
     (if http_method r = ''GET'' \<and> http_scheme (url r) \<and> storable resp
      then w\<lparr> caches := (caches w)(CACHE_NAME := (caches w CACHE_NAME)(url r \<mapsto> resp)) \<rparr>
      else w)"

text \<open>
  IndexedDB. \<open>contains\<close> is \<open>DOMStringList.contains\<close>. \<open>transaction\<close> throws
  \<open>NotFoundError\<close> when a named store does not exist. \<open>getAll\<close> yields the records in
  ascending key order; \<open>delete\<close> succeeds whether or not a record has the key; \<open>add\<close>
  fails with \<open>ConstraintError\<close> when the key is taken.
\<close>

definition contains :: "string list \<Rightarrow> string \<Rightarrow> bool" where
  "contains names n = (n \<in> set names)"

definition transaction :: "idb \<Rightarrow> string list \<Rightarrow> error + unit" where
  "transaction db names =
     (if list_all (contains (objectStoreNames db)) names then Inr ()
      else Inl (DOMException ''NotFoundError''))"

definition store_getAll :: "sync_operation list \<Rightarrow> error + sync_operation list" where
  "store_getAll records = Inr (sort_key op_id records)"

definition store_delete :: "rat \<Rightarrow> sync_operation list \<Rightarrow> error + sync_operation list" where
  "store_delete k records = Inr (filter (\<lambda>e. op_id e \<noteq> k) records)"

definition store_add :: "sync_operation \<Rightarrow> sync_operation list \<Rightarrow> error + sync_operation list" where
  "store_add e records =
     (if op_id e \<in> set (map op_id records) then Inl (DOMException ''ConstraintError'')
      else Inr (records @ [e]))"

section \<open>Caching strategies (sw.js)\<close>

definition cacheFirstStrategy :: "request \<Rightarrow> world \<Rightarrow> (error + response) \<times> world" where
  "cacheFirstStrategy r w =
     (case cache_match r w of
        Some cachedResponse \<Rightarrow>
          (case fetch r w of
             (Inr response, w1) \<Rightarrow>
               (Inr cachedResponse, if ok response then cache_put r response w1 else w1)
           | (Inl e, w1) \<Rightarrow> (Inr cachedResponse, w1))
      | None \<Rightarrow>
          (case fetch r w of
             (Inr networkResponse, w1) \<Rightarrow>
               (Inr networkResponse,
                if ok networkResponse then cache_put r networkResponse w1 else w1)
           | (Inl e, w1) \<Rightarrow>
               (Inr \<lparr> resp_status = 503, resp_vary = [], resp_body = ''Offline'' \<rparr>,
                log (console_error ''Cache-first strategy failed:'' [Error e]) w1)))"

definition networkFirstStrategy :: "request \<Rightarrow> world \<Rightarrow> (error + response) \<times> world" where
  "networkFirstStrategy r w =
     (case fetch r w of
        (Inr networkResponse, w1) \<Rightarrow>
          (Inr networkResponse,
           if ok networkResponse then cache_put r networkResponse w1 else w1)
      | (Inl e, w1) \<Rightarrow>
          (case cache_match r w1 of
             Some cachedResponse \<Rightarrow> (Inr cachedResponse, w1)
           | None \<Rightarrow> (Inr \<lparr> resp_status = 503, resp_vary = [], resp_body = ''Network error'' \<rparr>, w1)))"

definition staleWhileRevalidateStrategy ::
  "request \<Rightarrow> world \<Rightarrow> (error + response) \<times> world" where
  "staleWhileRevalidateStrategy r w =
     (let cachedResponse = cache_match r w in
      case fetch r w of
        (fetchPromise, w1) \<Rightarrow>
          (case cachedResponse of Some c \<Rightarrow> Inr c | None \<Rightarrow> fetchPromise,
           case fetchPromise of
             Inr response \<Rightarrow> if ok response then cache_put r response w1 else w1
           | Inl e \<Rightarrow> w1))"

text \<open>
  The \<open>fetch\<close> listener. \<open>None\<close> is a return without \<open>event.respondWith\<close>; \<open>Some\<close>
  carries what the promise given to \<open>respondWith\<close> settles to.
\<close>

definition fetch_listener ::
  "request \<Rightarrow> world \<Rightarrow> (error + response) option \<times> world" where
  "fetch_listener r w =
     (if http_method r \<noteq> ''GET'' \<or> origin (url r) \<noteq> location_origin w then (None, w)
      else if includes_str (pathname (url r)) ''/api/''
        then (case networkFirstStrategy r w of (res, w1) \<Rightarrow> (Some res, w1))
      else if includes_str (pathname (url r)) ''/static/''
        then (case cacheFirstStrategy r w of (res, w1) \<Rightarrow> (Some res, w1))
      else (case staleWhileRevalidateStrategy r w of (res, w1) \<Rightarrow> (Some res, w1)))"

section \<open>Notification click (sw.js)\<close>

text \<open>
  The event object as the listener reads it: \<open>event.action\<close>, \<open>event.data\<close> (\<open>None\<close>
  when the event has no such property) and \<open>event.notification\<close>, whose own \<open>data\<close> is
  what the \<open>push\<close> listener passed to \<open>showNotification\<close>. \<open>taskId\<close> is \<open>None\<close> when
  the data object has no such property.
\<close>

record payload =
  taskId :: "string option"

record notification =
  notification_data :: "payload option"
  notification_closed :: bool

record notification_event =
  action :: string
  event_data :: "payload option"
  event_notification :: notification

text \<open>
  What the listener hands to \<open>event.waitUntil\<close> is a call of \<open>clients.openWindow\<close>.
  \<open>handleTaskComplete\<close> is declared nowhere in \<open>sw.js\<close>: evaluating the call
  \<open>handleTaskComplete(data.taskId)\<close> throws a \<open>ReferenceError\<close> at the identifier, before
  the argument is read.
\<close>

datatype waited = openWindow string

definition template :: "string option \<Rightarrow> string" where
  "template v = (case v of None \<Rightarrow> ''undefined'' | Some s \<Rightarrow> s)"

definition notificationclick :: "notification_event \<Rightarrow> (error + waited) \<times> notification" where
  "notificationclick event =
     (let n = (event_notification event)\<lparr> notification_closed := True \<rparr>;
          data = event_data event
      in if action event = ''complete'' then (Inl ReferenceError, n)
         else if action event = ''view'' then
           (case data of
              None \<Rightarrow> (Inl TypeError, n)
            | Some d \<Rightarrow> (Inr (openWindow (''/?task='' @ template (taskId d))), n))
         else (Inr (openWindow ''/''), n))"

section \<open>Background sync (sw.js)\<close>

text \<open>
  \<open>indexedDB.open('TaskManagerDB', 1)\<close>: a database of a later version is refused with
  \<open>VersionError\<close>; one that does not exist yet is created, which runs
  \<open>onupgradeneeded\<close>; then \<open>onsuccess\<close> resolves with the connection. The connection is
  the world's \<open>database\<close>, so the functions that take \<open>db\<close> take the world. The two
  indexes of the new store are left out: nothing reads them.
\<close>

definition openDatabase :: "world \<Rightarrow> (error + unit) \<times> world" where
  "openDatabase w =
     (let db = database w in
      if version db > 1 then (Inl (DOMException ''VersionError''), w)
      else if version db < 1 then
        (Inr (),
         w\<lparr> database :=
             (if \<not> contains (objectStoreNames db) ''syncQueue''
              then db\<lparr> version := 1,
                       objectStoreNames := objectStoreNames db @ [''syncQueue''],
                       syncQueue := [] \<rparr>
              else db\<lparr> version := 1 \<rparr>) \<rparr>)
      else (Inr (), w))"

definition getPendingOperations :: "world \<Rightarrow> (error + sync_operation list) \<times> world" where
  "getPendingOperations w =
     (let db = database w in
      if \<not> contains (objectStoreNames db) ''syncQueue'' then
        (Inr [], log (console_log ''SyncQueue object store not found, returning empty array'' []) w)
      else
        (case transaction db [''syncQueue''] of
           Inl e \<Rightarrow>
             (Inr [], log (console_log ''SyncQueue access failed, returning empty array:'' [Error e]) w)
         | Inr _ \<Rightarrow>
             (case store_getAll (syncQueue db) of
                Inr result \<Rightarrow> (Inr result, w)
              | Inl e \<Rightarrow> (Inl e, w))))"

definition markOperationComplete :: "rat \<Rightarrow> world \<Rightarrow> (error + unit) \<times> world" where
  "markOperationComplete operationId w =
     (let db = database w in
      if \<not> contains (objectStoreNames db) ''syncQueue'' then
        (Inr (), log (console_log ''SyncQueue object store not found, skipping delete'' []) w)
      else
        (case transaction db [''syncQueue''] of
           Inl e \<Rightarrow> (Inr (), log (console_log ''SyncQueue delete failed:'' [Error e]) w)
         | Inr _ \<Rightarrow>
             (case store_delete operationId (syncQueue db) of
                Inr records \<Rightarrow> (Inr (), w\<lparr> database := db\<lparr> syncQueue := records \<rparr> \<rparr>)
              | Inl e \<Rightarrow> (Inl e, w))))"

definition syncCreateTask :: "string \<Rightarrow> world \<Rightarrow> (error + unit) \<times> world" where
  "syncCreateTask taskData w = (Inr (), log (console_log ''Syncing create task:'' [Data taskData]) w)"

definition syncUpdateTask :: "string \<Rightarrow> world \<Rightarrow> (error + unit) \<times> world" where
  "syncUpdateTask taskData w = (Inr (), log (console_log ''Syncing update task:'' [Data taskData]) w)"

definition syncDeleteTask :: "string \<Rightarrow> world \<Rightarrow> (error + unit) \<times> world" where
  "syncDeleteTask taskData w = (Inr (), log (console_log ''Syncing delete task:'' [Data taskData]) w)"

definition executeOperation :: "sync_operation \<Rightarrow> world \<Rightarrow> (error + unit) \<times> world" where
  "executeOperation operation w =
     (if op_type operation = ''CREATE_TASK'' then syncCreateTask (op_data operation) w
      else if op_type operation = ''UPDATE_TASK'' then syncUpdateTask (op_data operation) w
      else if op_type operation = ''DELETE_TASK'' then syncDeleteTask (op_data operation) w
      else (Inl (UnknownOperationType (op_type operation)), w))"

text \<open>
  A \<open>for ... of\<close> loop whose body may throw: the first error ends the loop and is the
  loop's outcome.
\<close>

fun for_of ::
  "('a \<Rightarrow> world \<Rightarrow> (error + unit) \<times> world) \<Rightarrow> 'a list \<Rightarrow> world \<Rightarrow> (error + unit) \<times> world" where
  "for_of body [] w = (Inr (), w)"
| "for_of body (x # xs) w =
     (case body x w of
        (Inl e, w1) \<Rightarrow> (Inl e, w1)
      | (Inr _, w1) \<Rightarrow> for_of body xs w1)"

text \<open>The body of the loop in \<open>syncPendingOperations\<close>: the inner \<open>try\<close> and \<open>catch\<close>.\<close>

definition sync_body :: "sync_operation \<Rightarrow> world \<Rightarrow> (error + unit) \<times> world" where
  "sync_body operation w =
     (case executeOperation operation w of
        (Inl e, w1) \<Rightarrow>
          (Inr (), log (console_error ''Failed to sync operation:'' [Operation operation, Error e]) w1)
      | (Inr _, w1) \<Rightarrow>
          (case markOperationComplete (op_id operation) w1 of
             (Inl e, w2) \<Rightarrow>
               (Inr (), log (console_error ''Failed to sync operation:'' [Operation operation, Error e]) w2)
           | (Inr _, w2) \<Rightarrow> (Inr (), w2)))"

definition notify_clients :: "nat \<Rightarrow> world \<Rightarrow> world" where
  "notify_clients count w =
     w\<lparr> posted := posted w @ map (\<lambda>client. (client, SYNC_COMPLETE count)) (clients w) \<rparr>"

definition syncPendingOperations :: "world \<Rightarrow> (error + unit) \<times> world" where
  "syncPendingOperations w =
     (case openDatabase w of
        (Inl e, w1) \<Rightarrow> (Inr (), log (console_error ''Background sync failed:'' [Error e]) w1)
      | (Inr _, w1) \<Rightarrow>
          (case getPendingOperations w1 of
             (Inl e, w2) \<Rightarrow> (Inr (), log (console_error ''Background sync failed:'' [Error e]) w2)
           | (Inr operations, w2) \<Rightarrow>
               (case for_of sync_body operations w2 of
                  (Inl e, w3) \<Rightarrow>
                    (Inr (), log (console_error ''Background sync failed:'' [Error e]) w3)
                | (Inr _, w3) \<Rightarrow> (Inr (), notify_clients (length operations) w3))))"

section \<open>Enqueueing (service-worker-patterns.md, storeOperationForSync)\<close>

text \<open>
  The promise of \<open>storeOperationForSync\<close> resolves, rejects, or stays pending: an
  exception thrown inside the \<open>onsuccess\<close> callback reaches neither \<open>resolve\<close> nor
  \<open>reject\<close>.
\<close>

datatype settled = Resolves | Rejects error | Pending

text \<open>
  JavaScript numbers are doubles. \<open>Date.now()\<close> is a whole number of milliseconds since
  the epoch and \<open>Math.random()\<close> a double in \<open>[0, 1)\<close>; their sum is the exact sum
  rounded to the nearest double, ties to even. A double of magnitude at least 1 whose
  integer part has \<open>bits\<close> binary digits is a multiple of \<open>2 ^ (bits - 53)\<close>. A sum
  below 1 has the clock at 0 and is the random double itself.
\<close>

fun bit_length :: "nat \<Rightarrow> nat" where
  "bit_length n = (if n = 0 then 0 else Suc (bit_length (n div 2)))"

declare bit_length.simps [simp del]

definition round_half_even :: "rat \<Rightarrow> int" where
  "round_half_even x =
     (let f = \<lfloor>x\<rfloor>; d = x - of_int f
      in if d < 1 / 2 then f
         else if 1 / 2 < d then f + 1
         else if even f then f else f + 1)"

definition to_double :: "rat \<Rightarrow> rat" where
  "to_double x =
     (if x < 1 then x
      else
        (let bits = bit_length (nat \<lfloor>x\<rfloor>) in
         if bits \<le> 53
         then of_int (round_half_even (x * 2 ^ (53 - bits))) / 2 ^ (53 - bits)
         else of_int (round_half_even (x / 2 ^ (bits - 53))) * 2 ^ (bits - 53)))"

text \<open>
  \<open>now_id\<close> and \<open>now_ts\<close> are the two readings of \<open>Date.now()\<close> (for \<open>id\<close>, then for
  \<open>timestamp\<close>) and \<open>random\<close> is the value of \<open>Math.random()\<close>. This \<open>open\<close> has no
  \<open>onupgradeneeded\<close> handler, so a database it creates has no stores.
\<close>

definition storeOperationForSync ::
  "nat \<Rightarrow> rat \<Rightarrow> nat \<Rightarrow> operation \<Rightarrow> idb \<Rightarrow> settled \<times> idb" where
  "storeOperationForSync now_id random now_ts operation db0 =
     (if version db0 > 1 then (Rejects (DOMException ''VersionError''), db0)
      else
        (let db = (if version db0 < 1 then db0\<lparr> version := 1 \<rparr> else db0) in
         case transaction db [''syncQueue''] of
           Inl e \<Rightarrow> (Pending, db)
         | Inr _ \<Rightarrow>
             (let syncOperation =
                \<lparr> op_type = op_type operation, op_data = op_data operation,
                  op_id = to_double (of_nat now_id + random), timestamp = int now_ts \<rparr>
              in case store_add syncOperation (syncQueue db) of
                   Inr records \<Rightarrow> (Resolves, db\<lparr> syncQueue := records \<rparr>)
                 | Inl e \<Rightarrow> (Rejects e, db))))"

section \<open>A concrete world\<close>

text \<open>
  A worker with nothing cached, an unreachable network, no database yet and one open tab.
  The examples below start from it.
\<close>

definition idle_world :: world where
  "idle_world =
     \<lparr> location_origin = ''https://tasks.example'',
       network = (\<lambda>r. Inl NetworkFailure),
       fetched = [],
       caches = (\<lambda>name. Map.empty),
       database = \<lparr> version = 0, objectStoreNames = [], syncQueue = [] \<rparr>,
       clients = [''tab-1''],
       posted = [],
       console = [] \<rparr>"

definition api_request :: request where
  "api_request =
     \<lparr> http_method = ''GET'',
       url = \<lparr> origin = ''https://tasks.example'', pathname = ''/api/tasks'' \<rparr> \<rparr>"

definition static_request :: request where
  "static_request =
     \<lparr> http_method = ''GET'',
       url = \<lparr> origin = ''https://tasks.example'', pathname = ''/static/app.js'' \<rparr> \<rparr>"

section \<open>Conflict resolver: properties\<close>

text \<open>
  C1 (as stated, refuted). The claim promises status \<open>completed\<close> whenever either side is
  completed, whatever the timestamps. For the local record pending at 100 and the remote
  record completed at 90, the last-write-wins guard returns the local record itself, so the
  merged status is \<open>pending\<close>.
\<close>

theorem resolveTaskConflict_completion_counterexample:
  "status \<lparr> task_id = ''t1'', title = ''Buy milk'', status = ''completed'',
            priority = ''low'', modifiedAt = 90 \<rparr> = ''completed''
   \<and> map_sum id status (resolveTaskConflict
        \<lparr> task_id = ''t1'', title = ''Buy milk'', status = ''pending'',
          priority = ''low'', modifiedAt = 100 \<rparr>
        \<lparr> task_id = ''t1'', title = ''Buy milk'', status = ''completed'',
          priority = ''low'', modifiedAt = 90 \<rparr>) = Inr ''pending''"
  by (simp add: resolveTaskConflict_def)

text \<open>
  C1 (amended). When the local record is strictly newer than the remote one,
  \<open>resolveTaskConflict\<close> returns the local record unchanged, so the result is completed
  only if the local record is. The status rule \<open>resolveStatusConflict\<close> yields
  \<open>completed\<close> exactly when either status is \<open>completed\<close>.
\<close>

theorem resolveTaskConflict_completion:
  "(modifiedAt r < modifiedAt l \<longrightarrow> resolveTaskConflict l r = Inr l)
   \<and> (resolveStatusConflict (status l) (status r) = ''completed'' \<longleftrightarrow>
        status l = ''completed'' \<or> status r = ''completed'')"
  by (auto simp: resolveTaskConflict_def resolveStatusConflict_def)

theorem resolveTaskConflict_completion_witness:
  "90 < (100::int)
   \<and> resolveTaskConflict
      \<lparr> task_id = ''t1'', title = ''Buy milk'', status = ''completed'',
        priority = ''low'', modifiedAt = 100 \<rparr>
      \<lparr> task_id = ''t1'', title = ''Buy milk'', status = ''pending'',
        priority = ''low'', modifiedAt = 90 \<rparr>
      = Inr \<lparr> task_id = ''t1'', title = ''Buy milk'', status = ''completed'',
        priority = ''low'', modifiedAt = 100 \<rparr>
   \<and> resolveStatusConflict ''completed'' ''pending'' = ''completed''"
  using resolveTaskConflict_completion [where
      l = "\<lparr> task_id = ''t1'', title = ''Buy milk'', status = ''completed'',
        priority = ''low'', modifiedAt = 100 \<rparr>"
      and r = "\<lparr> task_id = ''t1'', title = ''Buy milk'', status = ''pending'',
        priority = ''low'', modifiedAt = 90 \<rparr>"]
  by simp

section \<open>Background sync: facts about the model\<close>


lemma markOperationComplete_result: "fst (markOperationComplete k w) = Inr ()"
  by (simp add: markOperationComplete_def Let_def store_delete_def split: sum.splits)

lemma markOperationComplete_database:
  "database (snd (markOperationComplete k w)) =
     (if contains (objectStoreNames (database w)) ''syncQueue''
      then (database w)\<lparr> syncQueue := filter (\<lambda>e. op_id e \<noteq> k) (syncQueue (database w)) \<rparr>
      else database w)"
  by (simp add: markOperationComplete_def Let_def store_delete_def transaction_def log_def)

lemma markOperationComplete_frame:
  "clients (snd (markOperationComplete k w)) = clients w"
  "posted (snd (markOperationComplete k w)) = posted w"
  by (simp_all add: markOperationComplete_def Let_def store_delete_def transaction_def log_def)

lemma executeOperation_result:
  "fst (executeOperation operation w) =
     (if op_type operation = ''CREATE_TASK'' \<or> op_type operation = ''UPDATE_TASK''
         \<or> op_type operation = ''DELETE_TASK''
      then Inr () else Inl (UnknownOperationType (op_type operation)))"
  by (simp add: executeOperation_def syncCreateTask_def syncUpdateTask_def syncDeleteTask_def)

lemma executeOperation_any_world:
  "fst (executeOperation operation w') = fst (executeOperation operation w)"
  by (simp add: executeOperation_result)

lemma executeOperation_frame:
  "database (snd (executeOperation operation w)) = database w"
  "clients (snd (executeOperation operation w)) = clients w"
  "posted (snd (executeOperation operation w)) = posted w"
  by (simp_all add: executeOperation_def syncCreateTask_def syncUpdateTask_def
      syncDeleteTask_def log_def)

lemma executeOperation_failure_world:
  "fst (executeOperation operation w) = Inl e \<Longrightarrow> snd (executeOperation operation w) = w"
  by (simp add: executeOperation_def syncCreateTask_def syncUpdateTask_def
      syncDeleteTask_def split: if_splits)

lemma sync_body_result: "fst (sync_body operation w) = Inr ()"
  using markOperationComplete_result [of "op_id operation" "snd (executeOperation operation w)"]
  by (cases "executeOperation operation w"; cases "fst (executeOperation operation w)";
      cases "markOperationComplete (op_id operation) (snd (executeOperation operation w))")
     (auto simp: sync_body_def split: sum.splits prod.splits)

lemma sync_body_failure:
  assumes "fst (executeOperation operation w) = Inl e"
  shows "sync_body operation w =
    (Inr (), log (console_error ''Failed to sync operation:'' [Operation operation, Error e]) w)"
  using assms executeOperation_failure_world [OF assms]
  by (cases "executeOperation operation w") (simp add: sync_body_def)

lemma sync_body_database:
  "database (snd (sync_body operation w)) =
     (if fst (executeOperation operation w) = Inr ()
      then database (snd (markOperationComplete (op_id operation) (snd (executeOperation operation w))))
      else database w)"
  using markOperationComplete_result [of "op_id operation" "snd (executeOperation operation w)"]
    executeOperation_frame(1) [of operation w]
  by (cases "executeOperation operation w"; cases "fst (executeOperation operation w)";
      cases "markOperationComplete (op_id operation) (snd (executeOperation operation w))")
     (auto simp: sync_body_def log_def split: sum.splits prod.splits)

lemma sync_body_frame:
  "clients (snd (sync_body operation w)) = clients w"
  "posted (snd (sync_body operation w)) = posted w"
  using markOperationComplete_frame [of "op_id operation" "snd (executeOperation operation w)"]
    executeOperation_frame(2,3) [of operation w]
  by (cases "executeOperation operation w"; cases "fst (executeOperation operation w)";
      cases "markOperationComplete (op_id operation) (snd (executeOperation operation w))";
      auto simp: sync_body_def log_def split: sum.splits prod.splits)+

lemma for_of_sync_body_step:
  "for_of sync_body (operation # rest) w = for_of sync_body rest (snd (sync_body operation w))"
  using sync_body_result [of operation w]
  by (cases "sync_body operation w") (auto split: sum.splits)

lemma for_of_sync_body_append:
  "for_of sync_body (xs @ ys) w = for_of sync_body ys (snd (for_of sync_body xs w))"
  by (induction xs arbitrary: w) (simp_all add: for_of_sync_body_step del: for_of.simps(2))

lemma for_of_sync_body_result: "fst (for_of sync_body ops w) = Inr ()"
  by (induction ops arbitrary: w) (simp_all add: for_of_sync_body_step del: for_of.simps(2))

lemma for_of_sync_body_frame:
  "clients (snd (for_of sync_body ops w)) = clients w \<and>
   posted (snd (for_of sync_body ops w)) = posted w \<and>
   objectStoreNames (database (snd (for_of sync_body ops w))) = objectStoreNames (database w)"
  by (induction ops arbitrary: w)
     (simp_all add: for_of_sync_body_step sync_body_frame sync_body_database
        markOperationComplete_database executeOperation_frame del: for_of.simps(2))

lemma for_of_sync_body_queue:
  assumes "contains (objectStoreNames (database w)) ''syncQueue''"
  shows "syncQueue (database (snd (for_of sync_body ops w))) =
     filter (\<lambda>q. list_all (\<lambda>p. op_id p = op_id q \<longrightarrow> isl (fst (executeOperation p w))) ops)
       (syncQueue (database w))"
  using assms
proof (induction ops arbitrary: w)
  case Nil
  then show ?case by simp
next
  case (Cons operation rest)
  let ?w1 = "snd (sync_body operation w)"
  have names: "objectStoreNames (database ?w1) = objectStoreNames (database w)"
    by (simp add: sync_body_database markOperationComplete_database executeOperation_frame)
  have ih: "syncQueue (database (snd (for_of sync_body rest ?w1))) =
     filter (\<lambda>q. list_all (\<lambda>p. op_id p = op_id q \<longrightarrow> isl (fst (executeOperation p w))) rest)
       (syncQueue (database ?w1))"
    using Cons.IH [of ?w1] Cons.prems names
    by (simp add: executeOperation_any_world [of _ ?w1 w])
  show ?case
  proof (cases "fst (executeOperation operation w) = Inr ()")
    case True
    then have "syncQueue (database ?w1) =
        filter (\<lambda>e. op_id e \<noteq> op_id operation) (syncQueue (database w))"
      using Cons.prems
      by (simp add: sync_body_database markOperationComplete_database executeOperation_frame)
    with ih True show ?thesis
      by (auto simp: for_of_sync_body_step simp del: for_of.simps(2) intro!: filter_cong)
  next
    case False
    then have fails: "isl (fst (executeOperation operation w))"
      by (cases "fst (executeOperation operation w)") auto
    from False have "syncQueue (database ?w1) = syncQueue (database w)"
      by (simp add: sync_body_database)
    with ih fails show ?thesis
      by (simp add: for_of_sync_body_step del: for_of.simps(2))
  qed
qed

lemma syncPendingOperations_result: "fst (syncPendingOperations w) = Inr ()"
  by (simp add: syncPendingOperations_def split: prod.splits sum.splits)
lemma openDatabase_frame:
  "clients (snd (openDatabase w)) = clients w"
  "posted (snd (openDatabase w)) = posted w"
  by (simp_all add: openDatabase_def Let_def)

lemma openDatabase_result: "version (database w) \<le> 1 \<Longrightarrow> fst (openDatabase w) = Inr ()"
  by (simp add: openDatabase_def Let_def)

lemma getPendingOperations_frame:
  "clients (snd (getPendingOperations w)) = clients w"
  "posted (snd (getPendingOperations w)) = posted w"
  "database (snd (getPendingOperations w)) = database w"
  by (simp_all add: getPendingOperations_def Let_def log_def store_getAll_def split: sum.splits)

lemma syncPendingOperations_unfold:
  assumes "version (database w) \<le> 1"
    and "fst (getPendingOperations (snd (openDatabase w))) = Inr operations"
  shows "snd (syncPendingOperations w) =
    notify_clients (length operations)
      (snd (for_of sync_body operations (snd (getPendingOperations (snd (openDatabase w))))))"
proof -
  obtain w1 where o: "openDatabase w = (Inr (), w1)"
    using openDatabase_result [OF assms(1)] by (cases "openDatabase w") auto
  obtain w2 where g: "getPendingOperations w1 = (Inr operations, w2)"
    using assms(2) o by (cases "getPendingOperations w1") auto
  obtain w3 where f: "for_of sync_body operations w2 = (Inr (), w3)"
    using for_of_sync_body_result [of operations w2]
    by (cases "for_of sync_body operations w2") auto
  show ?thesis by (simp add: syncPendingOperations_def o g f)
qed

lemma sorted_key_before:
  assumes "sorted (map f xs)" and "a \<in> set xs" and "b \<in> set xs" and "f a < f b"
  shows "\<exists>us vs ws. xs = us @ a # vs @ b # ws"
proof -
  obtain ys zs where split: "xs = ys @ b # zs"
    using assms(3) by (auto simp: in_set_conv_decomp)
  have "a \<notin> set zs"
  proof
    assume "a \<in> set zs"
    then have "f b \<le> f a"
      using assms(1) by (simp add: split sorted_append)
    with assms(4) show False by simp
  qed
  moreover have "a \<noteq> b" using assms(4) by auto
  ultimately have "a \<in> set ys" using assms(2) by (simp add: split)
  then obtain us vs where "ys = us @ a # vs"
    by (auto simp: in_set_conv_decomp)
  then show ?thesis using split by auto
qed

lemma storeOperationForSync_resolves:
  assumes "storeOperationForSync now_id random now_ts operation db0 = (Resolves, db)"
  shows "contains (objectStoreNames db0) ''syncQueue''
    \<and> objectStoreNames db = objectStoreNames db0
    \<and> to_double (of_nat now_id + random) \<notin> op_id ` set (syncQueue db0)
    \<and> syncQueue db = syncQueue db0 @
        [\<lparr> op_type = op_type operation, op_data = op_data operation,
           op_id = to_double (of_nat now_id + random), timestamp = int now_ts \<rparr>]"
  using assms
  by (auto simp: storeOperationForSync_def Let_def transaction_def store_add_def
      split: if_splits sum.splits)

lemma filter_absent_key: "k \<notin> f ` set xs \<Longrightarrow> filter (\<lambda>e. f e \<noteq> k) xs = xs"
  by (induction xs) auto

lemma sync_body_console:
  "set (console w) \<subseteq> set (console (snd (sync_body p w)))"
  by (auto simp: sync_body_def executeOperation_def syncCreateTask_def syncUpdateTask_def
      syncDeleteTask_def markOperationComplete_def transaction_def store_delete_def
      log_def Let_def split: sum.splits prod.splits if_splits)

lemma for_of_sync_body_console:
  "set (console w) \<subseteq> set (console (snd (for_of sync_body ops w)))"
proof (induction ops arbitrary: w)
  case Nil
  then show ?case by simp
next
  case (Cons p ps)
  have "set (console w) \<subseteq> set (console (snd (sync_body p w)))"
    by (rule sync_body_console)
  also have "\<dots> \<subseteq> set (console (snd (for_of sync_body ps (snd (sync_body p w)))))"
    by (rule Cons.IH)
  finally show ?case
    by (simp add: for_of_sync_body_step del: for_of.simps(2))
qed

lemma for_of_sync_body_failure_logged:
  assumes "p \<in> set ops" and "fst (executeOperation p w) = Inl e"
  shows "console_error ''Failed to sync operation:'' [Operation p, Error e]
    \<in> set (console (snd (for_of sync_body ops w)))"
  using assms
proof (induction ops arbitrary: w)
  case Nil
  then show ?case by simp
next
  case (Cons x xs)
  let ?w1 = "snd (sync_body x w)"
  show ?case
  proof (cases "p = x")
    case True
    have "snd (sync_body x w) =
        log (console_error ''Failed to sync operation:'' [Operation p, Error e]) w"
      using Cons.prems(2) True by (simp add: sync_body_failure)
    then have "console_error ''Failed to sync operation:'' [Operation p, Error e]
        \<in> set (console ?w1)"
      by (simp add: log_def)
    then show ?thesis
      using for_of_sync_body_console [of ?w1 xs]
      by (auto simp: for_of_sync_body_step simp del: for_of.simps(2))
  next
    case False
    then have "p \<in> set xs" using Cons.prems(1) by simp
    moreover have "fst (executeOperation p ?w1) = Inl e"
      using Cons.prems(2) by (simp add: executeOperation_any_world [of p ?w1 w])
    ultimately show ?thesis
      using Cons.IH [of ?w1] by (simp add: for_of_sync_body_step del: for_of.simps(2))
  qed
qed

lemma getPendingOperations_nonempty:
  assumes "fst (getPendingOperations w) = Inr ops" and "ops \<noteq> []"
  shows "contains (objectStoreNames (database w)) ''syncQueue''
    \<and> ops = sort_key op_id (syncQueue (database w))"
  using assms
  by (auto simp: getPendingOperations_def Let_def transaction_def store_getAll_def
      split: if_splits sum.splits)

lemma notify_clients_frame:
  "database (notify_clients n w) = database w"
  "console (notify_clients n w) = console w"
  by (simp_all add: notify_clients_def)

text \<open>Rounding to a double.\<close>

lemma bit_length_bound: "n < 2 ^ k \<Longrightarrow> bit_length n \<le> k"
proof (induction n arbitrary: k rule: bit_length.induct)
  case (1 n)
  show ?case
  proof (cases "n = 0")
    case True
    then show ?thesis by (simp add: bit_length.simps)
  next
    case False
    then obtain j where k: "k = Suc j"
      using "1.prems" by (cases k) auto
    have "n div 2 < 2 ^ j"
      using "1.prems" k by auto
    then have "bit_length (n div 2) \<le> j"
      using "1.IH" False by blast
    then show ?thesis
      using False k by (simp add: bit_length.simps [of n])
  qed
qed

lemma round_half_even_lower: "of_int k \<le> y \<Longrightarrow> k \<le> round_half_even y"
proof -
  assume "of_int k \<le> y"
  then have "k \<le> \<lfloor>y\<rfloor>" by (simp add: le_floor_iff)
  then show ?thesis by (auto simp: round_half_even_def Let_def)
qed

lemma round_half_even_upper: "y \<le> of_int k \<Longrightarrow> round_half_even y \<le> k"
proof (cases "y = of_int k")
  case True
  then show ?thesis by (simp add: round_half_even_def Let_def)
next
  case False
  assume "y \<le> of_int k"
  with False have "y < of_int k" by simp
  then have "\<lfloor>y\<rfloor> < k" by (simp add: floor_less_iff)
  then show ?thesis by (auto simp: round_half_even_def Let_def)
qed

lemma to_double_between:
  assumes "0 \<le> r" and "r < 1" and "n < 2 ^ 53"
  shows "of_nat n \<le> to_double (of_nat n + r) \<and> to_double (of_nat n + r) \<le> of_nat n + 1"
proof (cases "n = 0")
  case True
  then show ?thesis using assms by (simp add: to_double_def)
next
  case False
  let ?x = "of_nat n + r :: rat"
  have fl: "\<lfloor>?x\<rfloor> = int n"
    using assms(1,2) by (simp add: floor_unique)
  have ge1: "\<not> ?x < 1"
    using False assms(1) by (simp add: not_less add_increasing2)
  let ?k = "53 - bit_length n"
  have bits: "bit_length n \<le> 53"
    using assms(3) by (rule bit_length_bound)
  have td: "to_double ?x = of_int (round_half_even (?x * 2 ^ ?k)) / 2 ^ ?k"
    using ge1 bits by (simp add: to_double_def fl Let_def)
  have lo: "of_int (int n * 2 ^ ?k) \<le> ?x * 2 ^ ?k"
    using assms(1) by (simp add: algebra_simps)
  have hi: "?x * 2 ^ ?k \<le> of_int ((int n + 1) * 2 ^ ?k)"
    using assms(2) by (simp add: algebra_simps)
  have "int n * 2 ^ ?k \<le> round_half_even (?x * 2 ^ ?k)"
    using lo by (rule round_half_even_lower)
  then have "(of_int (int n * 2 ^ ?k) :: rat) \<le> of_int (round_half_even (?x * 2 ^ ?k))"
    by (simp only: of_int_le_iff)
  then have a: "of_nat n \<le> to_double ?x"
    by (simp add: td pos_le_divide_eq)
  have "round_half_even (?x * 2 ^ ?k) \<le> (int n + 1) * 2 ^ ?k"
    using hi by (rule round_half_even_upper)
  then have "(of_int (round_half_even (?x * 2 ^ ?k)) :: rat) \<le> of_int ((int n + 1) * 2 ^ ?k)"
    by (simp only: of_int_le_iff)
  then have b: "to_double ?x \<le> of_nat n + 1"
    by (simp add: td pos_divide_le_eq)
  from a b show ?thesis by simp
qed


lemma round_half_even_of_int: "round_half_even (of_int z) = z"
  by (simp add: round_half_even_def)

lemma to_double_unfold:
  assumes "0 < n" and "n < 2 ^ 53" and "0 \<le> r" and "r < 1"
  shows "to_double (of_nat n + r) =
    of_int (round_half_even ((of_nat n + r) * 2 ^ (53 - bit_length n))) / 2 ^ (53 - bit_length n)"
proof -
  let ?x = "of_nat n + r :: rat"
  have fl: "\<lfloor>?x\<rfloor> = int n"
    using assms(3,4) by (simp add: floor_unique)
  have ge1: "\<not> ?x < 1"
    using assms(1,3) by (simp add: not_less add_increasing2)
  have bits: "bit_length n \<le> 53"
    using assms(2) by (rule bit_length_bound)
  show ?thesis
    using ge1 bits by (simp add: to_double_def fl Let_def)
qed

lemma to_double_exact:
  assumes "0 < n" and "n < 2 ^ 53" and "0 \<le> r" and "r < 1"
    and "r * 2 ^ (53 - bit_length n) = of_int m"
  shows "to_double (of_nat n + r) = of_nat n + r"
proof -
  let ?k = "53 - bit_length n"
  have "(of_nat n + r) * 2 ^ ?k = of_int (int n * 2 ^ ?k + m)"
    using assms(5) by (simp add: algebra_simps)
  then have "round_half_even ((of_nat n + r) * 2 ^ ?k) = int n * 2 ^ ?k + m"
    by (simp only: round_half_even_of_int)
  then have "to_double (of_nat n + r) = of_int (int n * 2 ^ ?k + m) / 2 ^ ?k"
    using to_double_unfold [OF assms(1-4)] by simp
  also have "\<dots> = of_nat n + r"
    using assms(5) [symmetric] by (simp add: field_simps)
  finally show ?thesis .
qed

lemma to_double_round_down:
  assumes "0 < n" and "n < 2 ^ 53" and "0 \<le> r" and "r < 1"
    and "r * 2 ^ (53 - bit_length n) < 1 / 2"
  shows "to_double (of_nat n + r) = of_nat n"
proof -
  let ?k = "53 - bit_length n"
  let ?y = "(of_nat n + r) * 2 ^ ?k :: rat"
  have y: "?y = of_int (int n * 2 ^ ?k) + r * 2 ^ ?k"
    by (simp add: algebra_simps)
  have nonneg: "0 \<le> r * 2 ^ ?k"
    using assms(3) by simp
  have fl: "\<lfloor>?y\<rfloor> = int n * 2 ^ ?k"
    unfolding y using nonneg assms(5) by (intro floor_unique) auto
  have "?y - of_int \<lfloor>?y\<rfloor> = r * 2 ^ ?k"
    by (simp only: fl) (simp add: algebra_simps)
  then have "?y - of_int \<lfloor>?y\<rfloor> < 1 / 2"
    using assms(5) by simp
  then have "round_half_even ?y = \<lfloor>?y\<rfloor>"
    unfolding round_half_even_def Let_def by (rule if_P)
  then have "round_half_even ?y = int n * 2 ^ ?k"
    by (simp only: fl)
  then show ?thesis
    using to_double_unfold [OF assms(1-4)] by simp
qed

lemma bit_length_now: "bit_length 1790000000000 = 41"
  by (simp add: bit_length.simps)

lemma bit_length_next: "bit_length 1790000000001 = 41"
  by (simp add: bit_length.simps)

lemma to_double_three_quarters:
  "to_double (of_nat 1790000000000 + 3 / 4) = 1790000000000 + 3 / 4"
  using to_double_exact [of 1790000000000 "3 / 4" 3072]
  by (simp add: bit_length_now)

lemma to_double_one_quarter:
  "to_double (of_nat 1790000000000 + 1 / 4) = 1790000000000 + 1 / 4"
  using to_double_exact [of 1790000000000 "1 / 4" 1024]
  by (simp add: bit_length_now)

lemma to_double_next_one_quarter:
  "to_double (of_nat 1790000000001 + 1 / 4) = 1790000000001 + 1 / 4"
  using to_double_exact [of 1790000000001 "1 / 4" 1024]
  by (simp add: bit_length_next)

lemmas worker_defs =
  idle_world_def api_request_def static_request_def CACHE_NAME_def log_def ok_def fetch_def cache_match_def
  http_scheme_def storable_def cache_put_def
  contains_def transaction_def store_getAll_def store_delete_def store_add_def
  cacheFirstStrategy_def networkFirstStrategy_def staleWhileRevalidateStrategy_def
  fetch_listener_def openDatabase_def getPendingOperations_def markOperationComplete_def
  syncCreateTask_def syncUpdateTask_def syncDeleteTask_def executeOperation_def
  sync_body_def notify_clients_def syncPendingOperations_def storeOperationForSync_def

section \<open>Notification click: properties\<close>

text \<open>
  C2. The claim: a click on \<open>complete\<close> of a notification whose payload data holds a
  \<open>taskId\<close> calls \<open>handleTaskComplete\<close> with it, and a click on \<open>view\<close> opens
  \<open>/?task=<taskId>\<close>. The listener takes \<open>data\<close> from the event, not from
  \<open>event.notification\<close>, where the \<open>push\<close> listener put it. For a click event that
  carries the payload on its notification and has no \<open>data\<close> of its own, \<open>view\<close> ends
  in a \<open>TypeError\<close> and no window is opened. \<open>complete\<close> ends in a
  \<open>ReferenceError\<close>, also when the event does carry the data, because
  \<open>handleTaskComplete\<close> is not declared.
\<close>

theorem notificationclick_reads_event_data:
  "fst (notificationclick
      \<lparr> action = ''complete'', event_data = None,
        event_notification =
          \<lparr> notification_data = Some \<lparr> taskId = Some ''t1'' \<rparr>, notification_closed = False \<rparr> \<rparr>)
     = Inl ReferenceError
   \<and> fst (notificationclick
      \<lparr> action = ''view'', event_data = None,
        event_notification =
          \<lparr> notification_data = Some \<lparr> taskId = Some ''t1'' \<rparr>, notification_closed = False \<rparr> \<rparr>)
     = Inl TypeError
   \<and> fst (notificationclick
      \<lparr> action = ''complete'', event_data = Some \<lparr> taskId = Some ''t1'' \<rparr>,
        event_notification =
          \<lparr> notification_data = Some \<lparr> taskId = Some ''t1'' \<rparr>, notification_closed = False \<rparr> \<rparr>)
     = Inl ReferenceError"
  by (simp add: notificationclick_def)

section \<open>Background sync: properties\<close>

text \<open>
  C3. Take a pass of \<open>syncPendingOperations\<close> that opens the database and reads the
  list \<open>ops\<close>, in which executing \<open>operation\<close> throws. The pass does not throw. The
  queue it leaves holds exactly the records for which no operation of the same id
  executed successfully: with keys distinct, as in an object store, the failed operation
  is still queued, and every operation of the list that executes successfully is removed,
  before or after the failure. Every failed operation of the list is logged. For every
  way of splitting the list at the failed operation, the pass runs the operations before
  it, logs the failure and nothing else, runs the operations after it, and notifies the
  clients.
\<close>

theorem syncPendingOperations_partial_progress:
  assumes "version (database w) \<le> 1"
    and "fst (getPendingOperations (snd (openDatabase w))) = Inr ops"
    and "operation \<in> set ops"
    and "fst (executeOperation operation w) = Inl e"
  shows "fst (syncPendingOperations w) = Inr ()
    \<and> syncQueue (database (snd (syncPendingOperations w))) =
        filter (\<lambda>q. list_all (\<lambda>p. op_id p = op_id q \<longrightarrow> isl (fst (executeOperation p w))) ops)
          (syncQueue (database (snd (openDatabase w))))
    \<and> (distinct (map op_id ops) \<longrightarrow>
         operation \<in> set (syncQueue (database (snd (syncPendingOperations w)))))
    \<and> (\<forall>p \<in> set ops. fst (executeOperation p w) = Inr () \<longrightarrow>
         p \<notin> set (syncQueue (database (snd (syncPendingOperations w)))))
    \<and> (\<forall>p \<in> set ops. \<forall>e'. fst (executeOperation p w) = Inl e' \<longrightarrow>
         console_error ''Failed to sync operation:'' [Operation p, Error e']
           \<in> set (console (snd (syncPendingOperations w))))
    \<and> (\<forall>before after. ops = before @ operation # after \<longrightarrow>
         snd (syncPendingOperations w) =
           notify_clients (length ops)
             (snd (for_of sync_body after
                (log (console_error ''Failed to sync operation:'' [Operation operation, Error e])
                   (snd (for_of sync_body before
                      (snd (getPendingOperations (snd (openDatabase w))))))))))"
proof -
  let ?w1 = "snd (openDatabase w)"
  let ?w2 = "snd (getPendingOperations ?w1)"
  let ?final = "snd (syncPendingOperations w)"
  let ?keep = "\<lambda>q. list_all (\<lambda>p. op_id p = op_id q \<longrightarrow> isl (fst (executeOperation p w))) ops"
  have unfold: "?final = notify_clients (length ops) (snd (for_of sync_body ops ?w2))"
    using assms(1,2) by (rule syncPendingOperations_unfold)
  have nonempty: "ops \<noteq> []"
    using assms(3) by auto
  note read = getPendingOperations_nonempty [OF assms(2) nonempty]
  have db2: "database ?w2 = database ?w1"
    by (simp add: getPendingOperations_frame)
  have store: "contains (objectStoreNames (database ?w2)) ''syncQueue''"
    using read by (simp add: db2)
  have members: "set ops = set (syncQueue (database ?w1))"
    using read by simp
  have queue: "syncQueue (database ?final) = filter ?keep (syncQueue (database ?w1))"
    using for_of_sync_body_queue [OF store, of ops]
    by (simp add: unfold notify_clients_frame db2 executeOperation_any_world [of _ ?w2 w])
  have kept: "operation \<in> set (syncQueue (database ?final))" if d: "distinct (map op_id ops)"
  proof -
    have same: "p = operation" if "p \<in> set ops" "op_id p = op_id operation" for p
      using d that assms(3) by (meson distinct_map inj_onD)
    have "isl (fst (executeOperation operation w))"
      using assms(4) by simp
    then have "?keep operation"
      using same by (auto simp: list_all_iff)
    then show ?thesis
      using assms(3) members by (simp add: queue)
  qed
  have removed: "p \<notin> set (syncQueue (database ?final))"
    if "p \<in> set ops" "fst (executeOperation p w) = Inr ()" for p
    using that by (auto simp: queue list_all_iff)
  have logged: "console_error ''Failed to sync operation:'' [Operation p, Error e']
      \<in> set (console ?final)"
    if "p \<in> set ops" "fst (executeOperation p w) = Inl e'" for p e'
  proof -
    have "fst (executeOperation p ?w2) = Inl e'"
      using that(2) by (simp add: executeOperation_any_world [of p ?w2 w])
    from for_of_sync_body_failure_logged [OF that(1) this] show ?thesis
      by (simp add: unfold notify_clients_frame)
  qed
  have continues: "?final =
      notify_clients (length ops)
        (snd (for_of sync_body after
           (log (console_error ''Failed to sync operation:'' [Operation operation, Error e])
              (snd (for_of sync_body before ?w2)))))"
    if split: "ops = before @ operation # after" for before after
  proof -
    let ?w3 = "snd (for_of sync_body before ?w2)"
    have "fst (executeOperation operation ?w3) = Inl e"
      using assms(4) by (simp add: executeOperation_any_world [of operation ?w3 w])
    then have "snd (sync_body operation ?w3) =
        log (console_error ''Failed to sync operation:'' [Operation operation, Error e]) ?w3"
      by (simp add: sync_body_failure)
    then show ?thesis
      by (simp add: unfold split for_of_sync_body_append for_of_sync_body_step
          del: for_of.simps(2))
  qed
  from queue kept removed logged continues show ?thesis
    using syncPendingOperations_result [of w] by blast
qed

theorem syncPendingOperations_partial_progress_witness:
  "version (database
      (idle_world\<lparr> database := \<lparr> version = 1, objectStoreNames = [''syncQueue''],
         syncQueue = [\<lparr> op_type = ''CREATE_TASK'', op_data = ''a'', op_id = 1, timestamp = 10 \<rparr>,
                      \<lparr> op_type = ''RENAME_TASK'', op_data = ''b'', op_id = 2, timestamp = 20 \<rparr>,
                      \<lparr> op_type = ''DELETE_TASK'', op_data = ''c'', op_id = 3, timestamp = 30 \<rparr>] \<rparr> \<rparr>))
     \<le> 1
   \<and> fst (getPendingOperations (snd (openDatabase
      (idle_world\<lparr> database := \<lparr> version = 1, objectStoreNames = [''syncQueue''],
         syncQueue = [\<lparr> op_type = ''CREATE_TASK'', op_data = ''a'', op_id = 1, timestamp = 10 \<rparr>,
                      \<lparr> op_type = ''RENAME_TASK'', op_data = ''b'', op_id = 2, timestamp = 20 \<rparr>,
                      \<lparr> op_type = ''DELETE_TASK'', op_data = ''c'', op_id = 3, timestamp = 30 \<rparr>] \<rparr> \<rparr>))))
     = Inr [\<lparr> op_type = ''CREATE_TASK'', op_data = ''a'', op_id = 1, timestamp = 10 \<rparr>,
            \<lparr> op_type = ''RENAME_TASK'', op_data = ''b'', op_id = 2, timestamp = 20 \<rparr>,
            \<lparr> op_type = ''DELETE_TASK'', op_data = ''c'', op_id = 3, timestamp = 30 \<rparr>]
   \<and> \<lparr> op_type = ''RENAME_TASK'', op_data = ''b'', op_id = 2, timestamp = 20 \<rparr>
       \<in> set [\<lparr> op_type = ''CREATE_TASK'', op_data = ''a'', op_id = 1, timestamp = 10 \<rparr>,
              \<lparr> op_type = ''RENAME_TASK'', op_data = ''b'', op_id = 2, timestamp = 20 \<rparr>,
              \<lparr> op_type = ''DELETE_TASK'', op_data = ''c'', op_id = 3, timestamp = 30 \<rparr>]
   \<and> fst (executeOperation
          \<lparr> op_type = ''RENAME_TASK'', op_data = ''b'', op_id = 2, timestamp = 20 \<rparr>
          (idle_world\<lparr> database := \<lparr> version = 1, objectStoreNames = [''syncQueue''],
             syncQueue = [\<lparr> op_type = ''CREATE_TASK'', op_data = ''a'', op_id = 1, timestamp = 10 \<rparr>,
                          \<lparr> op_type = ''RENAME_TASK'', op_data = ''b'', op_id = 2, timestamp = 20 \<rparr>,
                          \<lparr> op_type = ''DELETE_TASK'', op_data = ''c'', op_id = 3, timestamp = 30 \<rparr>] \<rparr> \<rparr>))
     = Inl (UnknownOperationType ''RENAME_TASK'')
   \<and> fst (syncPendingOperations
      (idle_world\<lparr> database := \<lparr> version = 1, objectStoreNames = [''syncQueue''],
         syncQueue = [\<lparr> op_type = ''CREATE_TASK'', op_data = ''a'', op_id = 1, timestamp = 10 \<rparr>,
                      \<lparr> op_type = ''RENAME_TASK'', op_data = ''b'', op_id = 2, timestamp = 20 \<rparr>,
                      \<lparr> op_type = ''DELETE_TASK'', op_data = ''c'', op_id = 3, timestamp = 30 \<rparr>] \<rparr> \<rparr>))
     = Inr ()
   \<and> syncQueue (database (snd (syncPendingOperations
      (idle_world\<lparr> database := \<lparr> version = 1, objectStoreNames = [''syncQueue''],
         syncQueue = [\<lparr> op_type = ''CREATE_TASK'', op_data = ''a'', op_id = 1, timestamp = 10 \<rparr>,
                      \<lparr> op_type = ''RENAME_TASK'', op_data = ''b'', op_id = 2, timestamp = 20 \<rparr>,
                      \<lparr> op_type = ''DELETE_TASK'', op_data = ''c'', op_id = 3, timestamp = 30 \<rparr>] \<rparr> \<rparr>))))
     = [\<lparr> op_type = ''RENAME_TASK'', op_data = ''b'', op_id = 2, timestamp = 20 \<rparr>]
   \<and> console_error ''Failed to sync operation:''
         [Operation \<lparr> op_type = ''RENAME_TASK'', op_data = ''b'', op_id = 2, timestamp = 20 \<rparr>,
          Error (UnknownOperationType ''RENAME_TASK'')]
       \<in> set (console (snd (syncPendingOperations
      (idle_world\<lparr> database := \<lparr> version = 1, objectStoreNames = [''syncQueue''],
         syncQueue = [\<lparr> op_type = ''CREATE_TASK'', op_data = ''a'', op_id = 1, timestamp = 10 \<rparr>,
                      \<lparr> op_type = ''RENAME_TASK'', op_data = ''b'', op_id = 2, timestamp = 20 \<rparr>,
                      \<lparr> op_type = ''DELETE_TASK'', op_data = ''c'', op_id = 3, timestamp = 30 \<rparr>] \<rparr> \<rparr>))))"
proof -
  let ?a = "\<lparr> op_type = ''CREATE_TASK'', op_data = ''a'', op_id = 1, timestamp = 10 \<rparr>"
  let ?b = "\<lparr> op_type = ''RENAME_TASK'', op_data = ''b'', op_id = 2, timestamp = 20 \<rparr>"
  let ?c = "\<lparr> op_type = ''DELETE_TASK'', op_data = ''c'', op_id = 3, timestamp = 30 \<rparr>"
  let ?w = "idle_world\<lparr> database := \<lparr> version = 1, objectStoreNames = [''syncQueue''],
             syncQueue = [?a, ?b, ?c] \<rparr> \<rparr>"
  have v: "version (database ?w) \<le> 1"
    by (simp add: idle_world_def)
  have g: "fst (getPendingOperations (snd (openDatabase ?w))) = Inr [?a, ?b, ?c]"
    by (simp add: idle_world_def openDatabase_def getPendingOperations_def contains_def
        transaction_def store_getAll_def)
  have m: "?b \<in> set [?a, ?b, ?c]"
    by simp
  have fails: "fst (executeOperation ?b ?w) = Inl (UnknownOperationType ''RENAME_TASK'')"
    by (simp add: executeOperation_def)
  note t = syncPendingOperations_partial_progress [OF v g m fails]
  from t have returns: "fst (syncPendingOperations ?w) = Inr ()"
    by (elim conjE)
  from t have "syncQueue (database (snd (syncPendingOperations ?w))) =
      filter (\<lambda>q. list_all (\<lambda>p. op_id p = op_id q \<longrightarrow> isl (fst (executeOperation p ?w)))
                    [?a, ?b, ?c])
        (syncQueue (database (snd (openDatabase ?w))))"
    by (elim conjE)
  also have "\<dots> = [?b]"
    by (simp add: idle_world_def openDatabase_def executeOperation_result)
  finally have queue: "syncQueue (database (snd (syncPendingOperations ?w))) = [?b]" .
  from t have "\<forall>p \<in> set [?a, ?b, ?c]. \<forall>e'. fst (executeOperation p ?w) = Inl e' \<longrightarrow>
         console_error ''Failed to sync operation:'' [Operation p, Error e']
           \<in> set (console (snd (syncPendingOperations ?w)))"
    by (elim conjE)
  with m fails have logged: "console_error ''Failed to sync operation:''
      [Operation ?b, Error (UnknownOperationType ''RENAME_TASK'')]
      \<in> set (console (snd (syncPendingOperations ?w)))"
    by blast
  from v g m fails returns queue logged show ?thesis
    by (simp only: simp_thms)
qed

text \<open>
  C4. When the database has no \<open>syncQueue\<close> object store, \<open>getPendingOperations\<close>
  resolves with the empty list and leaves the database as it is. This is the state the
  worker meets on a database of version 1 that was created without the store:
  \<open>openDatabase\<close> then resolves without an upgrade and the read still yields the empty
  list.
\<close>

theorem getPendingOperations_without_store:
  assumes "\<not> contains (objectStoreNames (database w)) ''syncQueue''"
  shows "fst (getPendingOperations w) = Inr []
    \<and> database (snd (getPendingOperations w)) = database w
    \<and> (version (database w) = 1 \<longrightarrow>
         fst (openDatabase w) = Inr () \<and>
         fst (getPendingOperations (snd (openDatabase w))) = Inr [])"
  using assms by (simp add: getPendingOperations_def openDatabase_def log_def Let_def)

theorem getPendingOperations_without_store_witness:
  "\<not> contains (objectStoreNames (database
        (idle_world\<lparr> database := \<lparr> version = 1, objectStoreNames = [''tasks''], syncQueue = [] \<rparr> \<rparr>)))
      ''syncQueue''
   \<and> fst (getPendingOperations
        (idle_world\<lparr> database := \<lparr> version = 1, objectStoreNames = [''tasks''], syncQueue = [] \<rparr> \<rparr>))
     = Inr []
   \<and> fst (getPendingOperations (snd (openDatabase
        (idle_world\<lparr> database := \<lparr> version = 1, objectStoreNames = [''tasks''], syncQueue = [] \<rparr> \<rparr>))))
     = Inr []"
  using getPendingOperations_without_store
    [of "idle_world\<lparr> database := \<lparr> version = 1, objectStoreNames = [''tasks''], syncQueue = [] \<rparr> \<rparr>"]
  by (simp add: idle_world_def contains_def)

text \<open>
  C5. \<open>markOperationComplete\<close> always resolves. A second call with the same id resolves
  too and leaves the database as the first call left it, and a call with an id that no
  queued record has leaves the database unchanged.
\<close>

theorem markOperationComplete_idempotent:
  "fst (markOperationComplete k w) = Inr ()
   \<and> fst (markOperationComplete k (snd (markOperationComplete k w))) = Inr ()
   \<and> database (snd (markOperationComplete k (snd (markOperationComplete k w))))
       = database (snd (markOperationComplete k w))
   \<and> (k \<notin> op_id ` set (syncQueue (database w)) \<longrightarrow>
        database (snd (markOperationComplete k w)) = database w)"
  by (simp add: markOperationComplete_result markOperationComplete_database filter_absent_key)

theorem markOperationComplete_idempotent_witness:
  "syncQueue (database (snd (markOperationComplete (7 / 2)
      (idle_world\<lparr> database := \<lparr> version = 1, objectStoreNames = [''syncQueue''],
         syncQueue = [\<lparr> op_type = ''CREATE_TASK'', op_data = ''a'', op_id = 7 / 2, timestamp = 3 \<rparr>] \<rparr> \<rparr>))))
     = []
   \<and> database (snd (markOperationComplete (7 / 2) (snd (markOperationComplete (7 / 2)
      (idle_world\<lparr> database := \<lparr> version = 1, objectStoreNames = [''syncQueue''],
         syncQueue = [\<lparr> op_type = ''CREATE_TASK'', op_data = ''a'', op_id = 7 / 2, timestamp = 3 \<rparr>] \<rparr> \<rparr>)))))
     = \<lparr> version = 1, objectStoreNames = [''syncQueue''], syncQueue = [] \<rparr>
   \<and> 5 \<notin> op_id ` set [\<lparr> op_type = ''CREATE_TASK'', op_data = ''a'', op_id = 7 / 2, timestamp = 3 \<rparr>]
   \<and> database (snd (markOperationComplete 5
      (idle_world\<lparr> database := \<lparr> version = 1, objectStoreNames = [''syncQueue''],
         syncQueue = [\<lparr> op_type = ''CREATE_TASK'', op_data = ''a'', op_id = 7 / 2, timestamp = 3 \<rparr>] \<rparr> \<rparr>)))
     = \<lparr> version = 1, objectStoreNames = [''syncQueue''],
         syncQueue = [\<lparr> op_type = ''CREATE_TASK'', op_data = ''a'', op_id = 7 / 2, timestamp = 3 \<rparr>] \<rparr>"
  using markOperationComplete_idempotent [of "7 / 2"
      "idle_world\<lparr> database := \<lparr> version = 1, objectStoreNames = [''syncQueue''],
         syncQueue = [\<lparr> op_type = ''CREATE_TASK'', op_data = ''a'', op_id = 7 / 2, timestamp = 3 \<rparr>] \<rparr> \<rparr>"]
    markOperationComplete_idempotent [of 5
      "idle_world\<lparr> database := \<lparr> version = 1, objectStoreNames = [''syncQueue''],
         syncQueue = [\<lparr> op_type = ''CREATE_TASK'', op_data = ''a'', op_id = 7 / 2, timestamp = 3 \<rparr>] \<rparr> \<rparr>"]
  by (simp add: worker_defs)

text \<open>
  C9. A pass that opens the database (its version is at most 1) and reads the list
  \<open>operations\<close> posts \<open>SYNC_COMPLETE\<close> with \<open>count = length operations\<close> to every
  client \<open>matchAll\<close> returned: the count is the number of operations the pass went
  through, the failed ones included. With the store holding a single \<open>CREATE_TASK\<close>
  operation, the count is 1 and the queue is empty afterwards.
\<close>

theorem syncPendingOperations_reports_count:
  assumes "version (database w) \<le> 1"
    and "fst (getPendingOperations (snd (openDatabase w))) = Inr operations"
  shows "posted (snd (syncPendingOperations w)) =
      posted w @ map (\<lambda>client. (client, SYNC_COMPLETE (length operations))) (clients w)
    \<and> (version (database w) = 1 \<and> contains (objectStoreNames (database w)) ''syncQueue''
        \<and> syncQueue (database w) = [operation] \<and> op_type operation = ''CREATE_TASK'' \<longrightarrow>
        length operations = 1 \<and> syncQueue (database (snd (syncPendingOperations w))) = [])"
proof -
  let ?w2 = "snd (getPendingOperations (snd (openDatabase w)))"
  have unfold: "snd (syncPendingOperations w) =
      notify_clients (length operations) (snd (for_of sync_body operations ?w2))"
    using assms by (rule syncPendingOperations_unfold)
  have "posted (snd (syncPendingOperations w)) =
      posted w @ map (\<lambda>client. (client, SYNC_COMPLETE (length operations))) (clients w)"
    by (simp add: unfold notify_clients_def for_of_sync_body_frame getPendingOperations_frame
        openDatabase_frame)
  moreover have "length operations = 1 \<and> syncQueue (database (snd (syncPendingOperations w))) = []"
    if s: "version (database w) = 1" "contains (objectStoreNames (database w)) ''syncQueue''"
      "syncQueue (database w) = [operation]" "op_type operation = ''CREATE_TASK''"
  proof -
    have o: "snd (openDatabase w) = w"
      using s(1) by (simp add: openDatabase_def Let_def)
    have g: "getPendingOperations w = (Inr [operation], w)"
      using s(2,3)
      by (simp add: getPendingOperations_def Let_def transaction_def store_getAll_def)
    have ops: "operations = [operation]"
      using assms(2) by (simp add: o g)
    have "syncQueue (database (snd (for_of sync_body [operation] w))) = []"
      using s(2,3,4) by (simp add: for_of_sync_body_queue executeOperation_result del: for_of.simps)
    then show ?thesis
      by (simp add: unfold ops o g notify_clients_def)
  qed
  ultimately show ?thesis by blast
qed

theorem syncPendingOperations_reports_count_witness:
  "version (database
      (idle_world\<lparr> database := \<lparr> version = 1, objectStoreNames = [''syncQueue''],
         syncQueue = [\<lparr> op_type = ''CREATE_TASK'', op_data = ''Buy milk'', op_id = 1, timestamp = 10 \<rparr>] \<rparr> \<rparr>))
     \<le> 1
   \<and> fst (getPendingOperations (snd (openDatabase
      (idle_world\<lparr> database := \<lparr> version = 1, objectStoreNames = [''syncQueue''],
         syncQueue = [\<lparr> op_type = ''CREATE_TASK'', op_data = ''Buy milk'', op_id = 1, timestamp = 10 \<rparr>] \<rparr> \<rparr>))))
     = Inr [\<lparr> op_type = ''CREATE_TASK'', op_data = ''Buy milk'', op_id = 1, timestamp = 10 \<rparr>]
   \<and> posted (snd (syncPendingOperations
      (idle_world\<lparr> database := \<lparr> version = 1, objectStoreNames = [''syncQueue''],
         syncQueue = [\<lparr> op_type = ''CREATE_TASK'', op_data = ''Buy milk'', op_id = 1, timestamp = 10 \<rparr>] \<rparr> \<rparr>)))
     = [(''tab-1'', SYNC_COMPLETE 1)]
   \<and> syncQueue (database (snd (syncPendingOperations
      (idle_world\<lparr> database := \<lparr> version = 1, objectStoreNames = [''syncQueue''],
         syncQueue = [\<lparr> op_type = ''CREATE_TASK'', op_data = ''Buy milk'', op_id = 1, timestamp = 10 \<rparr>] \<rparr> \<rparr>))))
     = []"
proof -
  let ?o = "\<lparr> op_type = ''CREATE_TASK'', op_data = ''Buy milk'', op_id = 1, timestamp = 10 \<rparr>"
  let ?w = "idle_world\<lparr> database := \<lparr> version = 1, objectStoreNames = [''syncQueue''],
         syncQueue = [?o] \<rparr> \<rparr>"
  have v: "version (database ?w) \<le> 1"
    by (simp add: idle_world_def)
  have g: "fst (getPendingOperations (snd (openDatabase ?w))) = Inr [?o]"
    by (simp add: idle_world_def openDatabase_def getPendingOperations_def contains_def
        transaction_def store_getAll_def)
  have s: "version (database ?w) = 1 \<and> contains (objectStoreNames (database ?w)) ''syncQueue''
        \<and> syncQueue (database ?w) = [?o] \<and> op_type ?o = ''CREATE_TASK''"
    by (simp add: idle_world_def contains_def)
  note t = syncPendingOperations_reports_count [OF v g, of ?o]
  from t have "posted (snd (syncPendingOperations ?w)) =
      posted ?w @ map (\<lambda>client. (client, SYNC_COMPLETE (length [?o]))) (clients ?w)"
    by (elim conjE)
  then have p: "posted (snd (syncPendingOperations ?w)) = [(''tab-1'', SYNC_COMPLETE 1)]"
    by (simp add: idle_world_def)
  from t s have q: "syncQueue (database (snd (syncPendingOperations ?w))) = []"
    by (elim conjE impE) (simp only: simp_thms)
  from v g p q show ?thesis
    by (simp only: simp_thms)
qed

section \<open>Enqueueing: properties\<close>

text \<open>
  Two fractions of the same millisecond that round to the same double give the same key:
  the second \<open>add\<close> fails and the promise rejects.
\<close>

lemma storeOperationForSync_same_double:
  "storeOperationForSync 1790000000000 (11 / 100000) 1790000000000
      \<lparr> op_type = ''UPDATE_TASK'', op_data = ''b'' \<rparr>
      (snd (storeOperationForSync 1790000000000 (1 / 10000) 1790000000000
         \<lparr> op_type = ''CREATE_TASK'', op_data = ''a'' \<rparr>
         \<lparr> version = 1, objectStoreNames = [''syncQueue''], syncQueue = [] \<rparr>))
     = (Rejects (DOMException ''ConstraintError''),
        \<lparr> version = 1, objectStoreNames = [''syncQueue''],
          syncQueue = [\<lparr> op_type = ''CREATE_TASK'', op_data = ''a'',
                         op_id = 1790000000000, timestamp = 1790000000000 \<rparr>] \<rparr>)"
proof -
  have a: "to_double (of_nat 1790000000000 + 1 / 10000) = of_nat 1790000000000"
    by (rule to_double_round_down) (simp_all add: bit_length_now)
  have b: "to_double (of_nat 1790000000000 + 11 / 100000) = of_nat 1790000000000"
    by (rule to_double_round_down) (simp_all add: bit_length_now)
  show ?thesis
    using a b by (simp add: worker_defs)
qed

text \<open>
  C8 (as stated, refuted). Two operations are enqueued one after the other within the
  same millisecond, the first with the random fraction 3/4 and the second with 1/4.
  Both calls resolve. The two timestamps are equal, not strictly increasing, and the
  drain returns the second operation before the first, because \<open>getAll\<close> orders by
  \<open>id\<close>.
\<close>

theorem storeOperationForSync_order_counterexample:
  "storeOperationForSync 1790000000000 (3 / 4) 1790000000000
      \<lparr> op_type = ''CREATE_TASK'', op_data = ''a'' \<rparr>
      \<lparr> version = 1, objectStoreNames = [''syncQueue''], syncQueue = [] \<rparr>
     = (Resolves, \<lparr> version = 1, objectStoreNames = [''syncQueue''],
          syncQueue = [\<lparr> op_type = ''CREATE_TASK'', op_data = ''a'',
                         op_id = 7160000000003 / 4, timestamp = 1790000000000 \<rparr>] \<rparr>)
   \<and> storeOperationForSync 1790000000000 (1 / 4) 1790000000000
      \<lparr> op_type = ''UPDATE_TASK'', op_data = ''b'' \<rparr>
      \<lparr> version = 1, objectStoreNames = [''syncQueue''],
        syncQueue = [\<lparr> op_type = ''CREATE_TASK'', op_data = ''a'',
                       op_id = 7160000000003 / 4, timestamp = 1790000000000 \<rparr>] \<rparr>
     = (Resolves, \<lparr> version = 1, objectStoreNames = [''syncQueue''],
          syncQueue = [\<lparr> op_type = ''CREATE_TASK'', op_data = ''a'',
                         op_id = 7160000000003 / 4, timestamp = 1790000000000 \<rparr>,
                       \<lparr> op_type = ''UPDATE_TASK'', op_data = ''b'',
                         op_id = 7160000000001 / 4, timestamp = 1790000000000 \<rparr>] \<rparr>)
   \<and> fst (getPendingOperations (idle_world\<lparr> database :=
        \<lparr> version = 1, objectStoreNames = [''syncQueue''],
          syncQueue = [\<lparr> op_type = ''CREATE_TASK'', op_data = ''a'',
                         op_id = 7160000000003 / 4, timestamp = 1790000000000 \<rparr>,
                       \<lparr> op_type = ''UPDATE_TASK'', op_data = ''b'',
                         op_id = 7160000000001 / 4, timestamp = 1790000000000 \<rparr>] \<rparr> \<rparr>))
     = Inr [\<lparr> op_type = ''UPDATE_TASK'', op_data = ''b'',
              op_id = 7160000000001 / 4, timestamp = 1790000000000 \<rparr>,
            \<lparr> op_type = ''CREATE_TASK'', op_data = ''a'',
              op_id = 7160000000003 / 4, timestamp = 1790000000000 \<rparr>]"
  using to_double_three_quarters to_double_one_quarter
  by (simp add: worker_defs)

text \<open>
  C8 (amended). Every drain returns all pending entries in ascending order of id. An
  enqueue call that resolves appends an entry with the clock reading as its timestamp and
  the double nearest to the clock reading plus the random fraction as its id. Two entries
  whose enqueue calls resolve one after the other have different ids and are drained in
  the order of their ids; that is the enqueue order whenever the clock reading in the
  second id is strictly greater than the one in the first (the random fractions lie in
  \<open>[0, 1)\<close> and the clock readings below \<open>2 ^ 53\<close>).
\<close>

theorem storeOperationForSync_order:
  "(\<exists>ops. fst (getPendingOperations w) = Inr ops \<and> sorted (map op_id ops)
      \<and> (contains (objectStoreNames (database w)) ''syncQueue'' \<longrightarrow>
           set ops = set (syncQueue (database w))
           \<and> length ops = length (syncQueue (database w))))
   \<and> (storeOperationForSync n1 r1 t1 a db0 = (Resolves, db1) \<longrightarrow>
       syncQueue db1 = syncQueue db0 @
         [\<lparr> op_type = op_type a, op_data = op_data a,
            op_id = to_double (of_nat n1 + r1), timestamp = int t1 \<rparr>])
   \<and> (storeOperationForSync n1 r1 t1 a db0 = (Resolves, db1)
       \<and> storeOperationForSync n2 r2 t2 b db1 = (Resolves, database w) \<longrightarrow>
       syncQueue (database w) = syncQueue db0 @
         [\<lparr> op_type = op_type a, op_data = op_data a,
            op_id = to_double (of_nat n1 + r1), timestamp = int t1 \<rparr>,
          \<lparr> op_type = op_type b, op_data = op_data b,
            op_id = to_double (of_nat n2 + r2), timestamp = int t2 \<rparr>]
       \<and> to_double (of_nat n1 + r1) \<noteq> to_double (of_nat n2 + r2)
       \<and> (to_double (of_nat n1 + r1) < to_double (of_nat n2 + r2) \<longrightarrow>
            (\<exists>ops us vs ws. fst (getPendingOperations w) = Inr ops
               \<and> ops = us @ \<lparr> op_type = op_type a, op_data = op_data a,
                               op_id = to_double (of_nat n1 + r1), timestamp = int t1 \<rparr>
                         # vs @ \<lparr> op_type = op_type b, op_data = op_data b,
                                  op_id = to_double (of_nat n2 + r2), timestamp = int t2 \<rparr>
                         # ws))
       \<and> (to_double (of_nat n2 + r2) < to_double (of_nat n1 + r1) \<longrightarrow>
            (\<exists>ops us vs ws. fst (getPendingOperations w) = Inr ops
               \<and> ops = us @ \<lparr> op_type = op_type b, op_data = op_data b,
                               op_id = to_double (of_nat n2 + r2), timestamp = int t2 \<rparr>
                         # vs @ \<lparr> op_type = op_type a, op_data = op_data a,
                                  op_id = to_double (of_nat n1 + r1), timestamp = int t1 \<rparr>
                         # ws))
       \<and> (0 \<le> r1 \<and> r1 < 1 \<and> 0 \<le> r2 \<and> r2 < 1 \<and> n1 < n2 \<and> n2 < 2 ^ 53 \<longrightarrow>
            to_double (of_nat n1 + r1) < to_double (of_nat n2 + r2)))"
proof -
  let ?e1 = "\<lparr> op_type = op_type a, op_data = op_data a,
               op_id = to_double (of_nat n1 + r1), timestamp = int t1 \<rparr>"
  let ?e2 = "\<lparr> op_type = op_type b, op_data = op_data b,
               op_id = to_double (of_nat n2 + r2), timestamp = int t2 \<rparr>"
  let ?queue = "syncQueue (database w)"
  have drain: "\<exists>ops. fst (getPendingOperations w) = Inr ops \<and> sorted (map op_id ops)
      \<and> (contains (objectStoreNames (database w)) ''syncQueue'' \<longrightarrow>
           set ops = set ?queue \<and> length ops = length ?queue)"
    by (simp add: getPendingOperations_def Let_def transaction_def store_getAll_def)
  have pair: "?queue = syncQueue db0 @ [?e1, ?e2]
      \<and> to_double (of_nat n1 + r1) \<noteq> to_double (of_nat n2 + r2)
      \<and> (to_double (of_nat n1 + r1) < to_double (of_nat n2 + r2) \<longrightarrow>
           (\<exists>ops us vs ws. fst (getPendingOperations w) = Inr ops
              \<and> ops = us @ ?e1 # vs @ ?e2 # ws))
      \<and> (to_double (of_nat n2 + r2) < to_double (of_nat n1 + r1) \<longrightarrow>
           (\<exists>ops us vs ws. fst (getPendingOperations w) = Inr ops
              \<and> ops = us @ ?e2 # vs @ ?e1 # ws))
      \<and> (0 \<le> r1 \<and> r1 < 1 \<and> 0 \<le> r2 \<and> r2 < 1 \<and> n1 < n2 \<and> n2 < 2 ^ 53 \<longrightarrow>
           to_double (of_nat n1 + r1) < to_double (of_nat n2 + r2))"
    if s1: "storeOperationForSync n1 r1 t1 a db0 = (Resolves, db1)"
      and s2: "storeOperationForSync n2 r2 t2 b db1 = (Resolves, database w)"
  proof -
    note f1 = storeOperationForSync_resolves [OF s1]
    note f2 = storeOperationForSync_resolves [OF s2]
    let ?ops = "sort_key op_id ?queue"
    have q: "?queue = syncQueue db0 @ [?e1, ?e2]"
      using f1 f2 by simp
    have differ: "to_double (of_nat n1 + r1) \<noteq> to_double (of_nat n2 + r2)"
      using f1 f2 by auto
    have g: "fst (getPendingOperations w) = Inr ?ops"
      using f1 f2
      by (simp add: getPendingOperations_def Let_def transaction_def store_getAll_def)
    have forward: "\<exists>us vs ws. ?ops = us @ ?e1 # vs @ ?e2 # ws"
      if "to_double (of_nat n1 + r1) < to_double (of_nat n2 + r2)"
      by (rule sorted_key_before [where f = op_id]) (use that in \<open>simp_all add: q\<close>)
    have backward: "\<exists>us vs ws. ?ops = us @ ?e2 # vs @ ?e1 # ws"
      if "to_double (of_nat n2 + r2) < to_double (of_nat n1 + r1)"
      by (rule sorted_key_before [where f = op_id]) (use that in \<open>simp_all add: q\<close>)
    have later: "to_double (of_nat n1 + r1) < to_double (of_nat n2 + r2)"
      if h: "0 \<le> r1 \<and> r1 < 1 \<and> 0 \<le> r2 \<and> r2 < 1 \<and> n1 < n2 \<and> n2 < 2 ^ 53"
    proof -
      have "n1 < 2 ^ 53" using h by linarith
      then have "to_double (of_nat n1 + r1) \<le> of_nat n1 + 1"
        using h to_double_between [of r1 n1] by blast
      also have "(of_nat n1 + 1 :: rat) \<le> of_nat n2"
        using h by (metis Suc_leI of_nat_Suc of_nat_le_iff add.commute)
      also have "(of_nat n2 :: rat) \<le> to_double (of_nat n2 + r2)"
        using h to_double_between [of r2 n2] by blast
      finally show ?thesis
        using differ by simp
    qed
    from q differ g forward backward later show ?thesis
      by blast
  qed
  have single: "syncQueue db1 = syncQueue db0 @ [?e1]"
    if "storeOperationForSync n1 r1 t1 a db0 = (Resolves, db1)"
    using storeOperationForSync_resolves [OF that] by simp
  from drain single pair show ?thesis
    by blast
qed

theorem storeOperationForSync_order_witness:
  "storeOperationForSync 1790000000000 (3 / 4) 1790000000000
      \<lparr> op_type = ''CREATE_TASK'', op_data = ''a'' \<rparr>
      \<lparr> version = 1, objectStoreNames = [''syncQueue''], syncQueue = [] \<rparr>
     = (Resolves, \<lparr> version = 1, objectStoreNames = [''syncQueue''],
          syncQueue = [\<lparr> op_type = ''CREATE_TASK'', op_data = ''a'',
                         op_id = 7160000000003 / 4, timestamp = 1790000000000 \<rparr>] \<rparr>)
   \<and> storeOperationForSync 1790000000001 (1 / 4) 1790000000001
      \<lparr> op_type = ''UPDATE_TASK'', op_data = ''b'' \<rparr>
      \<lparr> version = 1, objectStoreNames = [''syncQueue''],
        syncQueue = [\<lparr> op_type = ''CREATE_TASK'', op_data = ''a'',
                       op_id = 7160000000003 / 4, timestamp = 1790000000000 \<rparr>] \<rparr>
     = (Resolves, \<lparr> version = 1, objectStoreNames = [''syncQueue''],
          syncQueue = [\<lparr> op_type = ''CREATE_TASK'', op_data = ''a'',
                         op_id = 7160000000003 / 4, timestamp = 1790000000000 \<rparr>,
                       \<lparr> op_type = ''UPDATE_TASK'', op_data = ''b'',
                         op_id = 7160000000005 / 4, timestamp = 1790000000001 \<rparr>] \<rparr>)
   \<and> (0::rat) \<le> 3 / 4 \<and> (3 / 4 :: rat) < 1 \<and> (0::rat) \<le> 1 / 4 \<and> (1 / 4 :: rat) < 1
   \<and> (1790000000000::nat) < 1790000000001 \<and> (1790000000001::nat) < 2 ^ 53
   \<and> fst (getPendingOperations (idle_world\<lparr> database :=
        \<lparr> version = 1, objectStoreNames = [''syncQueue''],
          syncQueue = [\<lparr> op_type = ''CREATE_TASK'', op_data = ''a'',
                         op_id = 7160000000003 / 4, timestamp = 1790000000000 \<rparr>,
                       \<lparr> op_type = ''UPDATE_TASK'', op_data = ''b'',
                         op_id = 7160000000005 / 4, timestamp = 1790000000001 \<rparr>] \<rparr> \<rparr>))
     = Inr [\<lparr> op_type = ''CREATE_TASK'', op_data = ''a'',
              op_id = 7160000000003 / 4, timestamp = 1790000000000 \<rparr>,
            \<lparr> op_type = ''UPDATE_TASK'', op_data = ''b'',
              op_id = 7160000000005 / 4, timestamp = 1790000000001 \<rparr>]"
proof -
  let ?a = "\<lparr> op_type = ''CREATE_TASK'', op_data = ''a'' \<rparr>"
  let ?b = "\<lparr> op_type = ''UPDATE_TASK'', op_data = ''b'' \<rparr>"
  let ?e1 = "\<lparr> op_type = ''CREATE_TASK'', op_data = ''a'',
               op_id = 7160000000003 / 4, timestamp = 1790000000000 \<rparr>"
  let ?e2 = "\<lparr> op_type = ''UPDATE_TASK'', op_data = ''b'',
               op_id = 7160000000005 / 4, timestamp = 1790000000001 \<rparr>"
  let ?db0 = "\<lparr> version = 1, objectStoreNames = [''syncQueue''], syncQueue = [] \<rparr>"
  let ?db1 = "\<lparr> version = 1, objectStoreNames = [''syncQueue''], syncQueue = [?e1] \<rparr>"
  let ?db2 = "\<lparr> version = 1, objectStoreNames = [''syncQueue''], syncQueue = [?e1, ?e2] \<rparr>"
  let ?w = "idle_world\<lparr> database := ?db2 \<rparr>"
  have s1: "storeOperationForSync 1790000000000 (3 / 4) 1790000000000 ?a ?db0 = (Resolves, ?db1)"
    using to_double_three_quarters by (simp add: worker_defs)
  have s2: "storeOperationForSync 1790000000001 (1 / 4) 1790000000001 ?b ?db1 = (Resolves, ?db2)"
    using to_double_next_one_quarter by (simp add: worker_defs)
  have s2': "storeOperationForSync 1790000000001 (1 / 4) 1790000000001 ?b ?db1
      = (Resolves, database ?w)"
    using s2 by simp
  have bounds: "(0::rat) \<le> 3 / 4 \<and> (3 / 4 :: rat) < 1 \<and> (0::rat) \<le> 1 / 4 \<and> (1 / 4 :: rat) < 1
      \<and> (1790000000000::nat) < 1790000000001 \<and> (1790000000001::nat) < 2 ^ 53"
    by simp
  note t = storeOperationForSync_order [of ?w 1790000000000 "3 / 4" 1790000000000 ?a ?db0 ?db1
      1790000000001 "1 / 4" 1790000000001 ?b]
  from t s1 s2' bounds
  have "to_double (of_nat 1790000000000 + 3 / 4) < to_double (of_nat 1790000000001 + 1 / 4)"
    by blast
  with t s1 s2' obtain ops where "fst (getPendingOperations ?w) = Inr ops"
    by blast
  moreover have "fst (getPendingOperations ?w) = Inr [?e1, ?e2]"
    by (simp add: worker_defs)
  ultimately show ?thesis
    using s1 s2 bounds by simp
qed

section \<open>Caching strategies: properties\<close>

text \<open>
  C6 (as stated, refuted). The network answers the request with status 500 while an
  older response is cached. The fetch did not fail, so there is no fallback: the 500
  response is returned, not the cached one. It is not written to the cache either: the
  entry still holds the older response.
\<close>

theorem networkFirstStrategy_cases_counterexample:
  "fst (networkFirstStrategy api_request
      (idle_world\<lparr> network := (\<lambda>r. Inr \<lparr> resp_status = 500, resp_vary = [], resp_body = ''error'' \<rparr>),
         caches := (\<lambda>name. [url api_request \<mapsto> \<lparr> resp_status = 200, resp_vary = [], resp_body = ''old'' \<rparr>]) \<rparr>))
     = Inr \<lparr> resp_status = 500, resp_vary = [], resp_body = ''error'' \<rparr>
   \<and> caches (snd (networkFirstStrategy api_request
      (idle_world\<lparr> network := (\<lambda>r. Inr \<lparr> resp_status = 500, resp_vary = [], resp_body = ''error'' \<rparr>),
         caches := (\<lambda>name. [url api_request \<mapsto> \<lparr> resp_status = 200, resp_vary = [], resp_body = ''old'' \<rparr>]) \<rparr>)))
       CACHE_NAME (url api_request)
     = Some \<lparr> resp_status = 200, resp_vary = [], resp_body = ''old'' \<rparr>"
  by (simp add: worker_defs)

text \<open>
  C6 (amended). For a \<open>GET\<close> request of an \<open>http\<close> or \<open>https\<close> URL,
  \<open>networkFirstStrategy\<close> always calls \<open>fetch\<close>. A response with an ok status that the
  cache accepts (not 206, no \<open>Vary: *\<close>) is returned and overwrites the cache entry of
  the request. Any other response is returned and the cache is left as it is. When the
  fetch rejects, the cached response is returned if there is one, and a 503 response
  otherwise; the cache is left as it is.
\<close>

theorem networkFirstStrategy_cases:
  assumes "http_method r = ''GET''" and "http_scheme (url r)"
  shows "fetched (snd (networkFirstStrategy r w)) = fetched w @ [r]
    \<and> (\<forall>resp. network w r = Inr resp \<and> ok resp \<and> storable resp \<longrightarrow>
          fst (networkFirstStrategy r w) = Inr resp
          \<and> caches (snd (networkFirstStrategy r w)) =
              (caches w)(CACHE_NAME := (caches w CACHE_NAME)(url r \<mapsto> resp)))
    \<and> (\<forall>resp. network w r = Inr resp \<and> (\<not> ok resp \<or> \<not> storable resp) \<longrightarrow>
          fst (networkFirstStrategy r w) = Inr resp
          \<and> caches (snd (networkFirstStrategy r w)) = caches w)
    \<and> (\<forall>e c. network w r = Inl e \<and> caches w CACHE_NAME (url r) = Some c \<longrightarrow>
          fst (networkFirstStrategy r w) = Inr c
          \<and> caches (snd (networkFirstStrategy r w)) = caches w)
    \<and> (\<forall>e. network w r = Inl e \<and> caches w CACHE_NAME (url r) = None \<longrightarrow>
          fst (networkFirstStrategy r w) =
            Inr \<lparr> resp_status = 503, resp_vary = [], resp_body = ''Network error'' \<rparr>
          \<and> caches (snd (networkFirstStrategy r w)) = caches w)"
  using assms
  by (auto simp: networkFirstStrategy_def fetch_def cache_put_def cache_match_def
      split: sum.splits option.splits)

theorem networkFirstStrategy_cases_witness:
  "http_method api_request = ''GET'' \<and> http_scheme (url api_request)
   \<and> fetched (snd (networkFirstStrategy api_request idle_world)) = [api_request]
   \<and> fst (networkFirstStrategy api_request idle_world)
     = Inr \<lparr> resp_status = 503, resp_vary = [], resp_body = ''Network error'' \<rparr>
   \<and> fst (networkFirstStrategy api_request
      (idle_world\<lparr> network := (\<lambda>r. Inr \<lparr> resp_status = 200, resp_vary = [], resp_body = ''fresh'' \<rparr>),
         caches := (\<lambda>name. [url api_request \<mapsto> \<lparr> resp_status = 200, resp_vary = [], resp_body = ''old'' \<rparr>]) \<rparr>))
     = Inr \<lparr> resp_status = 200, resp_vary = [], resp_body = ''fresh'' \<rparr>
   \<and> caches (snd (networkFirstStrategy api_request
      (idle_world\<lparr> network := (\<lambda>r. Inr \<lparr> resp_status = 200, resp_vary = [], resp_body = ''fresh'' \<rparr>),
         caches := (\<lambda>name. [url api_request \<mapsto> \<lparr> resp_status = 200, resp_vary = [], resp_body = ''old'' \<rparr>]) \<rparr>)))
       CACHE_NAME (url api_request)
     = Some \<lparr> resp_status = 200, resp_vary = [], resp_body = ''fresh'' \<rparr>
   \<and> caches (snd (networkFirstStrategy api_request
      (idle_world\<lparr> network := (\<lambda>r. Inr \<lparr> resp_status = 206, resp_vary = [], resp_body = ''part'' \<rparr>),
         caches := (\<lambda>name. [url api_request \<mapsto> \<lparr> resp_status = 200, resp_vary = [], resp_body = ''old'' \<rparr>]) \<rparr>)))
       CACHE_NAME (url api_request)
     = Some \<lparr> resp_status = 200, resp_vary = [], resp_body = ''old'' \<rparr>
   \<and> fst (networkFirstStrategy api_request
      (idle_world\<lparr> caches := (\<lambda>name. [url api_request \<mapsto> \<lparr> resp_status = 200, resp_vary = [], resp_body = ''old'' \<rparr>]) \<rparr>))
     = Inr \<lparr> resp_status = 200, resp_vary = [], resp_body = ''old'' \<rparr>"
proof -
  have get: "http_method api_request = ''GET''"
    by (simp add: api_request_def)
  have scheme: "http_scheme (url api_request)"
    by (simp add: api_request_def http_scheme_def)
  show ?thesis
    using get scheme
      networkFirstStrategy_cases [OF get scheme, of idle_world]
      networkFirstStrategy_cases [OF get scheme,
        of "idle_world\<lparr> network := (\<lambda>r. Inr \<lparr> resp_status = 200, resp_vary = [], resp_body = ''fresh'' \<rparr>),
         caches := (\<lambda>name. [url api_request \<mapsto> \<lparr> resp_status = 200, resp_vary = [], resp_body = ''old'' \<rparr>]) \<rparr>"]
      networkFirstStrategy_cases [OF get scheme,
        of "idle_world\<lparr> network := (\<lambda>r. Inr \<lparr> resp_status = 206, resp_vary = [], resp_body = ''part'' \<rparr>),
         caches := (\<lambda>name. [url api_request \<mapsto> \<lparr> resp_status = 200, resp_vary = [], resp_body = ''old'' \<rparr>]) \<rparr>"]
      networkFirstStrategy_cases [OF get scheme,
        of "idle_world\<lparr> caches := (\<lambda>name. [url api_request \<mapsto> \<lparr> resp_status = 200, resp_vary = [], resp_body = ''old'' \<rparr>]) \<rparr>"]
    by (simp add: idle_world_def CACHE_NAME_def ok_def storable_def)
qed

text \<open>
  C7 (as stated, refuted). Nothing is cached for the request and the network answers with
  status 404. The response is returned, but the cache is not populated with it: the
  request still has no entry afterwards.
\<close>

theorem cacheFirstStrategy_cases_counterexample:
  "cache_match static_request
      (idle_world\<lparr> network := (\<lambda>r. Inr \<lparr> resp_status = 404, resp_vary = [], resp_body = ''Not found'' \<rparr>) \<rparr>)
     = None
   \<and> fst (cacheFirstStrategy static_request
      (idle_world\<lparr> network := (\<lambda>r. Inr \<lparr> resp_status = 404, resp_vary = [], resp_body = ''Not found'' \<rparr>) \<rparr>))
     = Inr \<lparr> resp_status = 404, resp_vary = [], resp_body = ''Not found'' \<rparr>
   \<and> caches (snd (cacheFirstStrategy static_request
      (idle_world\<lparr> network := (\<lambda>r. Inr \<lparr> resp_status = 404, resp_vary = [], resp_body = ''Not found'' \<rparr>) \<rparr>)))
       CACHE_NAME (url static_request)
     = None"
  by (simp add: worker_defs)

text \<open>
  C7 (amended). For a \<open>GET\<close> request of an \<open>http\<close> or \<open>https\<close> URL,
  \<open>cacheFirstStrategy\<close> always calls \<open>fetch\<close>. A cached response is returned whatever
  the network does. The fetched response overwrites the cache entry exactly when its
  status is ok and the cache accepts it (not 206, no \<open>Vary: *\<close>); with any other
  response, or when the fetch rejects, the cache is left as it is. Without a cached
  response the fetched response is returned, and a 503 response when the fetch rejects.
\<close>

theorem cacheFirstStrategy_cases:
  assumes "http_method r = ''GET''" and "http_scheme (url r)"
  shows "fetched (snd (cacheFirstStrategy r w)) = fetched w @ [r]
    \<and> (\<forall>c. caches w CACHE_NAME (url r) = Some c \<longrightarrow>
          fst (cacheFirstStrategy r w) = Inr c)
    \<and> (\<forall>resp. network w r = Inr resp \<and> ok resp \<and> storable resp \<longrightarrow>
          caches (snd (cacheFirstStrategy r w)) =
              (caches w)(CACHE_NAME := (caches w CACHE_NAME)(url r \<mapsto> resp)))
    \<and> (\<forall>resp. network w r = Inr resp \<and> (\<not> ok resp \<or> \<not> storable resp) \<longrightarrow>
          caches (snd (cacheFirstStrategy r w)) = caches w)
    \<and> (\<forall>e. network w r = Inl e \<longrightarrow> caches (snd (cacheFirstStrategy r w)) = caches w)
    \<and> (\<forall>resp. caches w CACHE_NAME (url r) = None \<and> network w r = Inr resp \<longrightarrow>
          fst (cacheFirstStrategy r w) = Inr resp)
    \<and> (\<forall>e. caches w CACHE_NAME (url r) = None \<and> network w r = Inl e \<longrightarrow>
          fst (cacheFirstStrategy r w) =
            Inr \<lparr> resp_status = 503, resp_vary = [], resp_body = ''Offline'' \<rparr>)"
  using assms
  by (auto simp: cacheFirstStrategy_def fetch_def cache_put_def cache_match_def log_def
      split: sum.splits option.splits)

theorem cacheFirstStrategy_cases_witness:
  "http_method static_request = ''GET'' \<and> http_scheme (url static_request)
   \<and> fetched (snd (cacheFirstStrategy static_request idle_world)) = [static_request]
   \<and> fst (cacheFirstStrategy static_request idle_world)
     = Inr \<lparr> resp_status = 503, resp_vary = [], resp_body = ''Offline'' \<rparr>
   \<and> fst (cacheFirstStrategy static_request
      (idle_world\<lparr> caches := (\<lambda>name. [url static_request \<mapsto> \<lparr> resp_status = 200, resp_vary = [], resp_body = ''old'' \<rparr>]) \<rparr>))
     = Inr \<lparr> resp_status = 200, resp_vary = [], resp_body = ''old'' \<rparr>
   \<and> fst (cacheFirstStrategy static_request
      (idle_world\<lparr> network := (\<lambda>r. Inr \<lparr> resp_status = 200, resp_vary = [], resp_body = ''fresh'' \<rparr>) \<rparr>))
     = Inr \<lparr> resp_status = 200, resp_vary = [], resp_body = ''fresh'' \<rparr>
   \<and> caches (snd (cacheFirstStrategy static_request
      (idle_world\<lparr> network := (\<lambda>r. Inr \<lparr> resp_status = 200, resp_vary = [], resp_body = ''fresh'' \<rparr>) \<rparr>)))
       CACHE_NAME (url static_request)
     = Some \<lparr> resp_status = 200, resp_vary = [], resp_body = ''fresh'' \<rparr>
   \<and> caches (snd (cacheFirstStrategy static_request
      (idle_world\<lparr> network := (\<lambda>r. Inr \<lparr> resp_status = 200, resp_vary = [''*''], resp_body = ''any'' \<rparr>) \<rparr>)))
       CACHE_NAME (url static_request)
     = None"
proof -
  have get: "http_method static_request = ''GET''"
    by (simp add: static_request_def)
  have scheme: "http_scheme (url static_request)"
    by (simp add: static_request_def http_scheme_def)
  show ?thesis
    using get scheme
      cacheFirstStrategy_cases [OF get scheme, of idle_world]
      cacheFirstStrategy_cases [OF get scheme,
        of "idle_world\<lparr> caches := (\<lambda>name. [url static_request \<mapsto> \<lparr> resp_status = 200, resp_vary = [], resp_body = ''old'' \<rparr>]) \<rparr>"]
      cacheFirstStrategy_cases [OF get scheme,
        of "idle_world\<lparr> network := (\<lambda>r. Inr \<lparr> resp_status = 200, resp_vary = [], resp_body = ''fresh'' \<rparr>) \<rparr>"]
      cacheFirstStrategy_cases [OF get scheme,
        of "idle_world\<lparr> network := (\<lambda>r. Inr \<lparr> resp_status = 200, resp_vary = [''*''], resp_body = ''any'' \<rparr>) \<rparr>"]
    by (simp add: idle_world_def CACHE_NAME_def ok_def storable_def)
qed

text \<open>
  C10. For a request whose method is not \<open>GET\<close>, or whose origin is not the worker's,
  the \<open>fetch\<close> listener returns without calling \<open>respondWith\<close> and leaves the world as
  it is: no strategy runs, the worker fetches nothing and the cache is unchanged.
\<close>

theorem fetch_listener_passes_through:
  assumes "http_method r \<noteq> ''GET'' \<or> origin (url r) \<noteq> location_origin w"
  shows "fetch_listener r w = (None, w)"
  using assms by (simp add: fetch_listener_def)

theorem fetch_listener_passes_through_witness:
  "http_method (api_request\<lparr> http_method := ''POST'' \<rparr>) \<noteq> ''GET''
   \<and> fetch_listener (api_request\<lparr> http_method := ''POST'' \<rparr>) idle_world = (None, idle_world)
   \<and> origin (url (api_request\<lparr> url := \<lparr> origin = ''https://cdn.example'', pathname = ''/api/tasks'' \<rparr> \<rparr>))
       \<noteq> location_origin idle_world
   \<and> fetch_listener
       (api_request\<lparr> url := \<lparr> origin = ''https://cdn.example'', pathname = ''/api/tasks'' \<rparr> \<rparr>)
       idle_world = (None, idle_world)"
  using fetch_listener_passes_through [of "api_request\<lparr> http_method := ''POST'' \<rparr>" idle_world]
    fetch_listener_passes_through
      [of "api_request\<lparr> url := \<lparr> origin = ''https://cdn.example'', pathname = ''/api/tasks'' \<rparr> \<rparr>"
          idle_world]
  by (simp add: idle_world_def api_request_def)

end
